theory Spec2Isabelle
  imports Complex_Main
begin

section \<open>Data model of backend/server.py\<close>

text \<open>
  The pydantic models of the source are records. Field names carry the name of their
  model where two models share a field name (\<open>id\<close>, \<open>name\<close>, \<open>created_at\<close>, ...).
  Python's \<open>int\<close> is \<open>int\<close>; a \<open>float\<close> is the real number it denotes (infinities and
  NaN are left out), and every arithmetic operation on floats rounds its exact result, see
  \<open>fl_round\<close> below; \<open>Optional[t]\<close> is \<open>t option\<close> with \<open>None\<close> for Python's None.
\<close>

record User =
  user_id :: string
  email :: string
  user_name :: string
  user_created_at :: string

text \<open>A document of the collection \<open>db.users\<close>: the dump of a User plus \<open>password_hash\<close>.\<close>

record UserDoc = User +
  password_hash :: string

record UserCreate =
  reg_email :: string
  reg_password :: string
  reg_name :: string

record UserLogin =
  login_email :: string
  login_password :: string

text \<open>
  The claims set of a token (the dict given to \<open>jwt.encode\<close>, returned by \<open>jwt.decode\<close>):
  the code writes and reads the keys \<open>sub\<close> and \<open>exp\<close> only. \<open>exp\<close> is in whole seconds
  since the epoch.
\<close>

record claims =
  sub :: "string option"
  exp :: "int option"

text \<open>
  The text of a bearer token: either a well-formed token, which carries the key it was
  signed with and its claims set, or any other string.
\<close>

datatype jwt = Signed string claims | Malformed string

record Token =
  access_token :: jwt
  token_type :: string
  token_user :: User

record Category =
  category_id :: string
  category_name :: string
  category_description :: "string option"
  category_created_at :: string

record CategoryCreate =
  cc_name :: string
  cc_description :: "string option"

record Product =
  product_id :: string
  name :: string
  sku :: string
  category :: string
  quantity :: int
  unit_price :: real
  reorder_level :: int
  description :: "string option"
  created_at :: string
  updated_at :: string

text \<open>
  The body of POST /products as it arrives: \<open>pc_reorder_level = None\<close> is a body without
  the key \<open>reorder_level\<close>, for which the model class ProductCreate supplies 10.
\<close>

record ProductCreate =
  pc_name :: string
  pc_sku :: string
  pc_category :: string
  pc_quantity :: int
  pc_unit_price :: real
  pc_reorder_level :: "int option"
  pc_description :: "string option"

record ProductUpdate =
  pu_name :: "string option"
  pu_sku :: "string option"
  pu_category :: "string option"
  pu_quantity :: "int option"
  pu_unit_price :: "real option"
  pu_reorder_level :: "int option"
  pu_description :: "string option"

record DashboardStats =
  total_products :: int
  total_categories :: int
  low_stock_count :: int
  total_stock_value :: real
  total_quantity :: int

record StockDistribution =
  sd_category :: string
  sd_count :: int
  sd_total_value :: real

text \<open>\<open>raise HTTPException(status_code=..., detail=...)\<close> is the error value of a handler.\<close>

datatype http_error = HTTPException (status_code: nat) (detail: string)

subsection \<open>The document store\<close>

text \<open>
  The three collections, each a list of documents in insertion order. \<open>find_one\<close> returns
  the first match, \<open>find(...).to_list(n)\<close> the first \<open>n\<close> matches, \<open>insert_one\<close> and
  \<open>insert_many\<close> append, \<open>update_one\<close> rewrites the first match, \<open>delete_one\<close> removes the
  first match and reports how many documents it deleted.
\<close>

record db =
  users :: "UserDoc list"
  categories :: "Category list"
  products :: "Product list"

definition find_one :: "('a \<Rightarrow> bool) \<Rightarrow> 'a list \<Rightarrow> 'a option" where
  "find_one q xs = List.find q xs"

definition find_to_list :: "('a \<Rightarrow> bool) \<Rightarrow> nat \<Rightarrow> 'a list \<Rightarrow> 'a list" where
  "find_to_list q n xs = take n (filter q xs)"

definition insert_one :: "'a \<Rightarrow> 'a list \<Rightarrow> 'a list" where
  "insert_one x xs = xs @ [x]"

definition insert_many :: "'a list \<Rightarrow> 'a list \<Rightarrow> 'a list" where
  "insert_many ys xs = xs @ ys"

fun update_one :: "('a \<Rightarrow> bool) \<Rightarrow> ('a \<Rightarrow> 'a) \<Rightarrow> 'a list \<Rightarrow> 'a list" where
  "update_one q f [] = []"
| "update_one q f (x # xs) = (if q x then f x # xs else x # update_one q f xs)"

fun delete_one :: "('a \<Rightarrow> bool) \<Rightarrow> 'a list \<Rightarrow> 'a list \<times> nat" where
  "delete_one q [] = ([], 0)"
| "delete_one q (x # xs) =
     (if q x then (xs, 1) else (case delete_one q xs of (ys, n) \<Rightarrow> (x # ys, n)))"

definition count_documents :: "'a list \<Rightarrow> int" where
  "count_documents xs = int (length xs)"

subsection \<open>What a request reads from outside the program\<close>

text \<open>
  \<open>uuid4 n\<close> and \<open>utcnow_iso n\<close> are the results of the \<open>n\<close>-th call (from 0) of
  \<open>str(uuid.uuid4())\<close> and of \<open>datetime.now(timezone.utc).isoformat()\<close> while the request is
  handled; \<open>utcnow\<close> is the clock in whole seconds since the epoch, the unit of a token's
  \<open>exp\<close> claim; \<open>pwd_hash\<close> and \<open>pwd_verify\<close> are \<open>pwd_context.hash\<close> and
  \<open>pwd_context.verify\<close> (passlib, bcrypt); \<open>JWT_SECRET\<close> is the signing key read from the
  process environment; \<open>fl_round\<close> is the rounding of the machine's float arithmetic, which
  takes the exact result of an operation to the float that the operation returns.
\<close>

record env =
  uuid4 :: "nat \<Rightarrow> string"
  utcnow_iso :: "nat \<Rightarrow> string"
  utcnow :: int
  pwd_hash :: "string \<Rightarrow> string"
  pwd_verify :: "string \<Rightarrow> string \<Rightarrow> bool"
  JWT_SECRET :: string
  fl_round :: "real \<Rightarrow> real"

definition JWT_EXPIRATION_HOURS :: int where
  "JWT_EXPIRATION_HOURS = 24"

section \<open>Products\<close>

text \<open>
  \<open>get_products\<close> (lines 186-201). \<open>if category:\<close> and \<open>if low_stock:\<close> test truthiness:
  None and the empty string are false, None and False are false.
\<close>

definition category_query :: "string option \<Rightarrow> Product \<Rightarrow> bool" where
  "category_query cat =
     (case cat of
        None \<Rightarrow> (\<lambda>p. True)
      | Some c \<Rightarrow> (if c \<noteq> [] then (\<lambda>p. category p = c) else (\<lambda>p. True)))"

definition is_low_stock :: "Product \<Rightarrow> bool" where
  "is_low_stock p \<longleftrightarrow> quantity p \<le> reorder_level p"

definition get_products :: "db \<Rightarrow> string option \<Rightarrow> bool option \<Rightarrow> User \<Rightarrow> Product list" where
  "get_products d cat low_stock current_user =
     (let fetched = find_to_list (category_query cat) 1000 (products d)
      in if low_stock = Some True then filter is_low_stock fetched else fetched)"

text \<open>
  \<open>Product(**product_data.model_dump())\<close> (line 209): the fields of the request, the default
  10 of \<open>reorder_level\<close>, and the three default factories in the order of the class body.
\<close>

definition Product_of_create :: "env \<Rightarrow> ProductCreate \<Rightarrow> Product" where
  "Product_of_create e product_data =
     \<lparr>product_id = uuid4 e 0,
      name = pc_name product_data,
      sku = pc_sku product_data,
      category = pc_category product_data,
      quantity = pc_quantity product_data,
      unit_price = pc_unit_price product_data,
      reorder_level = (case pc_reorder_level product_data of None \<Rightarrow> 10 | Some r \<Rightarrow> r),
      description = pc_description product_data,
      created_at = utcnow_iso e 0,
      updated_at = utcnow_iso e 1\<rparr>"

text \<open>\<open>create_product\<close> (lines 203-211).\<close>

definition create_product ::
    "db \<Rightarrow> env \<Rightarrow> ProductCreate \<Rightarrow> User \<Rightarrow> http_error + db \<times> Product" where
  "create_product d e product_data current_user =
     (case find_one (\<lambda>p. sku p = pc_sku product_data) (products d) of
        Some existing \<Rightarrow> Inl (HTTPException 400 ''SKU already exists'')
      | None \<Rightarrow>
          (let product = Product_of_create e product_data
           in Inr (d\<lparr>products := insert_one product (products d)\<rparr>, product)))"

text \<open>
  \<open>{"$set": update_data}\<close> (lines 223, 224, 231): \<open>update_data\<close> holds the fields of the
  patch that are not None, and \<open>updated_at\<close>; \<open>$set\<close> overwrites exactly those.
\<close>

definition set_update_data :: "ProductUpdate \<Rightarrow> string \<Rightarrow> Product \<Rightarrow> Product" where
  "set_update_data product_data now p =
     p\<lparr>name := (case pu_name product_data of None \<Rightarrow> name p | Some v \<Rightarrow> v),
       sku := (case pu_sku product_data of None \<Rightarrow> sku p | Some v \<Rightarrow> v),
       category := (case pu_category product_data of None \<Rightarrow> category p | Some v \<Rightarrow> v),
       quantity := (case pu_quantity product_data of None \<Rightarrow> quantity p | Some v \<Rightarrow> v),
       unit_price := (case pu_unit_price product_data of None \<Rightarrow> unit_price p | Some v \<Rightarrow> v),
       reorder_level :=
         (case pu_reorder_level product_data of None \<Rightarrow> reorder_level p | Some v \<Rightarrow> v),
       description :=
         (case pu_description product_data of None \<Rightarrow> description p | Some v \<Rightarrow> Some v),
       updated_at := now\<rparr>"

text \<open>
  \<open>update_product\<close> (lines 213-234). The last branch is \<open>Product(**None)\<close>, which raises
  a TypeError that the framework answers with status 500.
\<close>

definition update_product ::
    "db \<Rightarrow> env \<Rightarrow> string \<Rightarrow> ProductUpdate \<Rightarrow> User \<Rightarrow> http_error + db \<times> Product" where
  "update_product d e pid product_data current_user =
     (case find_one (\<lambda>p. product_id p = pid) (products d) of
        None \<Rightarrow> Inl (HTTPException 404 ''Product not found'')
      | Some existing \<Rightarrow>
          (if (case pu_sku product_data of
                 None \<Rightarrow> False
               | Some s \<Rightarrow>
                   s \<noteq> sku existing \<and>
                   find_one (\<lambda>p. sku p = s \<and> product_id p \<noteq> pid) (products d) \<noteq> None)
           then Inl (HTTPException 400 ''SKU already exists'')
           else
             (let products' =
                    update_one (\<lambda>p. product_id p = pid)
                      (set_update_data product_data (utcnow_iso e 0)) (products d)
              in case find_one (\<lambda>p. product_id p = pid) products' of
                   None \<Rightarrow> Inl (HTTPException 500 ''Internal Server Error'')
                 | Some updated_product \<Rightarrow>
                     Inr (d\<lparr>products := products'\<rparr>, updated_product))))"

text \<open>\<open>delete_product\<close> (lines 236-241).\<close>

definition delete_product :: "db \<Rightarrow> string \<Rightarrow> User \<Rightarrow> http_error + db \<times> string" where
  "delete_product d pid current_user =
     (case delete_one (\<lambda>p. product_id p = pid) (products d) of
        (products', deleted_count) \<Rightarrow>
          (if deleted_count = 0 then Inl (HTTPException 404 ''Product not found'')
           else Inr (d\<lparr>products := products'\<rparr>, ''Product deleted successfully'')))"

section \<open>Dashboard\<close>

text \<open>
  Float arithmetic: \<open>float(i)\<close> for an int, and the sum and the product of two floats, each
  the rounding of the exact result.
\<close>

definition float_of_int :: "env \<Rightarrow> int \<Rightarrow> real" where
  "float_of_int e i = fl_round e (of_int i)"

definition fl_add :: "env \<Rightarrow> real \<Rightarrow> real \<Rightarrow> real" where
  "fl_add e x y = fl_round e (x + y)"

definition fl_mul :: "env \<Rightarrow> real \<Rightarrow> real \<Rightarrow> real" where
  "fl_mul e x y = fl_round e (x * y)"

text \<open>
  Python's \<open>sum\<close> adds from the int 0, left to right. Over ints the additions are exact.
  Over floats the first addition turns the 0 into a float and every addition rounds; the
  compensation of rounding errors that CPython applies to float sums from version 3.12 on
  is not modelled (it gives the same value for sums of one or two terms).
\<close>

definition py_sum :: "int list \<Rightarrow> int" where
  "py_sum xs = foldl (\<lambda>acc x. acc + x) 0 xs"

definition py_sum_float :: "env \<Rightarrow> real list \<Rightarrow> real" where
  "py_sum_float e xs = foldl (\<lambda>acc x. fl_add e acc x) (float_of_int e 0) xs"

text \<open>
  \<open>p["quantity"] * p["unit_price"]\<close> (lines 250, 271): an int times a float, the int
  converted first.
\<close>

definition stock_value :: "env \<Rightarrow> Product \<Rightarrow> real" where
  "stock_value e p = fl_mul e (float_of_int e (quantity p)) (unit_price p)"

text \<open>\<open>get_dashboard_stats\<close> (lines 243-259).\<close>

definition get_dashboard_stats :: "db \<Rightarrow> env \<Rightarrow> User \<Rightarrow> DashboardStats" where
  "get_dashboard_stats d e current_user =
     (let fetched = find_to_list (\<lambda>p. True) 1000 (products d);
          categories_count = count_documents (categories d)
      in \<lparr>total_products = int (length fetched),
          total_categories = categories_count,
          low_stock_count = py_sum (map (\<lambda>p. 1) (filter is_low_stock fetched)),
          total_stock_value = py_sum_float e (map (stock_value e) fetched),
          total_quantity = py_sum (map quantity fetched)\<rparr>)"

text \<open>
  \<open>get_stock_distribution\<close> (lines 261-276). The dict \<open>distribution\<close> is an association
  list in insertion order; \<open>distribution_add\<close> is one round of the loop: a new category
  starts from the ints 0 and 0, then count and total value are increased.
\<close>

fun distribution_add ::
    "env \<Rightarrow> string \<Rightarrow> real \<Rightarrow> (string \<times> int \<times> real) list \<Rightarrow> (string \<times> int \<times> real) list" where
  "distribution_add e c v [] = [(c, 0 + 1, fl_add e (float_of_int e 0) v)]"
| "distribution_add e c v ((k, n, t) # rest) =
     (if k = c then (k, n + 1, fl_add e t v) # rest
      else (k, n, t) # distribution_add e c v rest)"

definition get_stock_distribution :: "db \<Rightarrow> env \<Rightarrow> User \<Rightarrow> StockDistribution list" where
  "get_stock_distribution d e current_user =
     (let fetched = find_to_list (\<lambda>p. True) 1000 (products d);
          distribution =
            foldl (\<lambda>dist p. distribution_add e (category p) (stock_value e p) dist) [] fetched
      in map (\<lambda>(cat, n, t). \<lparr>sd_category = cat, sd_count = n, sd_total_value = t\<rparr>) distribution)"

section \<open>Categories\<close>

text \<open>\<open>get_categories\<close> (lines 171-174) and \<open>create_category\<close> (lines 176-184).\<close>

definition get_categories :: "db \<Rightarrow> User \<Rightarrow> Category list" where
  "get_categories d current_user = find_to_list (\<lambda>c. True) 1000 (categories d)"

definition create_category ::
    "db \<Rightarrow> env \<Rightarrow> CategoryCreate \<Rightarrow> User \<Rightarrow> http_error + db \<times> Category" where
  "create_category d e category_data current_user =
     (case find_one (\<lambda>c. category_name c = cc_name category_data) (categories d) of
        Some existing \<Rightarrow> Inl (HTTPException 400 ''Category already exists'')
      | None \<Rightarrow>
          (let cat = \<lparr>category_id = uuid4 e 0,
                      category_name = cc_name category_data,
                      category_description = cc_description category_data,
                      category_created_at = utcnow_iso e 0\<rparr>
           in Inr (d\<lparr>categories := insert_one cat (categories d)\<rparr>, cat)))"

section \<open>Authentication\<close>

subsection \<open>The jwt library\<close>

text \<open>
  Modelled from the spec: the functions \<open>jwt.encode\<close> and \<open>jwt.decode\<close> and the exception
  classes \<open>jwt.ExpiredSignatureError\<close> and \<open>jwt.JWTError\<close> belong to the imported library
  \<open>jwt\<close>, which is not among the sources. They follow section 4.2 of the specification:
  a token is signed with a symmetric secret; decoding checks signature and format, then the
  expiration, and a token is expired from the instant \<open>exp\<close> on. \<open>JWTError\<close> stands for
  every failure of \<open>jwt.decode\<close> other than expiry, as the handler at line 130 takes it.
\<close>

datatype jwt_exception = ExpiredSignatureError | JWTError

definition jwt_encode :: "claims \<Rightarrow> string \<Rightarrow> jwt" where
  "jwt_encode to_encode key = Signed key to_encode"

definition jwt_decode :: "jwt \<Rightarrow> string \<Rightarrow> int \<Rightarrow> jwt_exception + claims" where
  "jwt_decode token key now =
     (case token of
        Malformed s \<Rightarrow> Inl JWTError
      | Signed k payload \<Rightarrow>
          (if k \<noteq> key then Inl JWTError
           else case exp payload of
                  None \<Rightarrow> Inr payload
                | Some t \<Rightarrow> (if t \<le> now then Inl ExpiredSignatureError else Inr payload)))"

subsection \<open>Tokens and the current user\<close>

text \<open>\<open>create_access_token\<close> (lines 114-119).\<close>

definition create_access_token :: "env \<Rightarrow> claims \<Rightarrow> jwt" where
  "create_access_token e data =
     (let expire = utcnow e + JWT_EXPIRATION_HOURS * 3600;
          to_encode = data\<lparr>exp := Some expire\<rparr>
      in jwt_encode to_encode (JWT_SECRET e))"

text \<open>
  The \<open>try\<close> statement of \<open>get_current_user\<close> (lines 122-131): the token's subject, or
  the HTTPException of the branch taken. The exception raised at line 127 is no jwt
  exception and leaves the \<open>try\<close> statement as it is.
\<close>

definition verify_token :: "env \<Rightarrow> jwt \<Rightarrow> http_error + string" where
  "verify_token e token =
     (case jwt_decode token (JWT_SECRET e) (utcnow e) of
        Inl ExpiredSignatureError \<Rightarrow> Inl (HTTPException 401 ''Token has expired'')
      | Inl JWTError \<Rightarrow> Inl (HTTPException 401 ''Could not validate credentials'')
      | Inr payload \<Rightarrow>
          (case sub payload of
             None \<Rightarrow> Inl (HTTPException 401 ''Invalid authentication credentials'')
           | Some uid \<Rightarrow> Inr uid))"

text \<open>\<open>User(**user)\<close> with \<open>extra="ignore"\<close>: the fields of User, \<open>password_hash\<close> dropped.\<close>

definition User_of_doc :: "UserDoc \<Rightarrow> User" where
  "User_of_doc user =
     \<lparr>user_id = user_id user, email = email user, user_name = user_name user,
      user_created_at = user_created_at user\<rparr>"

text \<open>\<open>get_current_user\<close> (lines 121-136).\<close>

definition get_current_user :: "db \<Rightarrow> env \<Rightarrow> jwt \<Rightarrow> http_error + User" where
  "get_current_user d e credentials =
     (case verify_token e credentials of
        Inl err \<Rightarrow> Inl err
      | Inr uid \<Rightarrow>
          (case find_one (\<lambda>u. user_id u = uid) (users d) of
             None \<Rightarrow> Inl (HTTPException 401 ''User not found'')
           | Some user \<Rightarrow> Inr (User_of_doc user)))"

text \<open>\<open>register\<close> (lines 138-155).\<close>

definition register :: "db \<Rightarrow> env \<Rightarrow> UserCreate \<Rightarrow> http_error + db \<times> Token" where
  "register d e user_data =
     (case find_one (\<lambda>u. email u = reg_email user_data) (users d) of
        Some existing_user \<Rightarrow> Inl (HTTPException 400 ''Email already registered'')
      | None \<Rightarrow>
          (let user = \<lparr>user_id = uuid4 e 0, email = reg_email user_data,
                       user_name = reg_name user_data, user_created_at = utcnow_iso e 0\<rparr>;
               user_dict = \<lparr>user_id = user_id user, email = email user,
                            user_name = user_name user, user_created_at = user_created_at user,
                            password_hash = pwd_hash e (reg_password user_data)\<rparr>;
               d' = d\<lparr>users := insert_one user_dict (users d)\<rparr>;
               token = create_access_token e \<lparr>sub = Some (user_id user), exp = None\<rparr>
           in Inr (d', \<lparr>access_token = token, token_type = ''bearer'', token_user = user\<rparr>)))"

text \<open>\<open>login\<close> (lines 157-165).\<close>

definition login :: "db \<Rightarrow> env \<Rightarrow> UserLogin \<Rightarrow> http_error + Token" where
  "login d e credentials =
     (case find_one (\<lambda>u. email u = login_email credentials) (users d) of
        None \<Rightarrow> Inl (HTTPException 401 ''Invalid email or password'')
      | Some user \<Rightarrow>
          (if \<not> pwd_verify e (login_password credentials) (password_hash user)
           then Inl (HTTPException 401 ''Invalid email or password'')
           else
             (let user_obj = User_of_doc user;
                  token = create_access_token e \<lparr>sub = Some (user_id user_obj), exp = None\<rparr>
              in Inr \<lparr>access_token = token, token_type = ''bearer'', token_user = user_obj\<rparr>)))"

text \<open>\<open>get_me\<close> (lines 167-169).\<close>

definition get_me :: "User \<Rightarrow> User" where
  "get_me current_user = current_user"

section \<open>Seeding\<close>

text \<open>
  \<open>seed_data\<close> (lines 278-307). The \<open>k\<close>-th category literal draws identifier \<open>k\<close> and
  clock reading \<open>k\<close>; the \<open>k\<close>-th product literal draws identifier \<open>5 + k\<close> and the
  clock readings \<open>5 + 2k\<close> (created_at) and \<open>6 + 2k\<close> (updated_at).
\<close>

definition seed_category :: "env \<Rightarrow> nat \<Rightarrow> string \<Rightarrow> string \<Rightarrow> Category" where
  "seed_category e k nm descr =
     \<lparr>category_id = uuid4 e k, category_name = nm, category_description = Some descr,
      category_created_at = utcnow_iso e k\<rparr>"

definition seed_product ::
    "env \<Rightarrow> nat \<Rightarrow> string \<Rightarrow> string \<Rightarrow> string \<Rightarrow> int \<Rightarrow> real \<Rightarrow> int \<Rightarrow> string \<Rightarrow> Product" where
  "seed_product e k nm s c q pr r descr =
     \<lparr>product_id = uuid4 e (5 + k), name = nm, sku = s, category = c, quantity = q,
      unit_price = pr, reorder_level = r, description = Some descr,
      created_at = utcnow_iso e (5 + 2 * k), updated_at = utcnow_iso e (6 + 2 * k)\<rparr>"

definition seed_categories :: "env \<Rightarrow> Category list" where
  "seed_categories e =
     [seed_category e 0 ''Electronics'' ''Electronic devices and accessories'',
      seed_category e 1 ''Furniture'' ''Office and home furniture'',
      seed_category e 2 ''Stationery'' ''Office supplies and stationery'',
      seed_category e 3 ''Clothing'' ''Apparel and accessories'',
      seed_category e 4 ''Food & Beverages'' ''Food items and drinks'']"

definition seed_products :: "env \<Rightarrow> Product list" where
  "seed_products e =
     [seed_product e 0 ''Laptop Dell XPS 15'' ''ELEC-001'' ''Electronics''
        25 1299.99 10 ''High-performance laptop'',
      seed_product e 1 ''Wireless Mouse'' ''ELEC-002'' ''Electronics''
        150 29.99 50 ''Ergonomic wireless mouse'',
      seed_product e 2 ''Office Chair Premium'' ''FURN-001'' ''Furniture''
        8 299.99 15 ''Ergonomic office chair'',
      seed_product e 3 ''Standing Desk'' ''FURN-002'' ''Furniture''
        12 499.99 10 ''Adjustable standing desk'',
      seed_product e 4 ''Notebook A4'' ''STAT-001'' ''Stationery''
        500 3.99 100 ''Ruled notebook'',
      seed_product e 5 ''Ballpoint Pens (Pack of 10)'' ''STAT-002'' ''Stationery''
        5 5.99 50 ''Blue ink pens'',
      seed_product e 6 ''Business Shirt'' ''CLTH-001'' ''Clothing''
        45 49.99 20 ''Formal business shirt'',
      seed_product e 7 ''Coffee Beans (1kg)'' ''FOOD-001'' ''Food & Beverages''
        3 24.99 20 ''Premium arabica beans'',
      seed_product e 8 ''Bottled Water (24 pack)'' ''FOOD-002'' ''Food & Beverages''
        80 8.99 30 ''Natural spring water'',
      seed_product e 9 ''USB-C Cable'' ''ELEC-003'' ''Electronics''
        200 12.99 80 ''2m USB-C charging cable'']"

definition seed_data :: "db \<Rightarrow> env \<Rightarrow> db \<times> string" where
  "seed_data d e =
     (let existing_categories = count_documents (categories d)
      in if existing_categories > 0 then (d, ''Data already seeded'')
         else
           (let d1 = d\<lparr>categories := insert_many (seed_categories e) (categories d)\<rparr>;
                d2 = d1\<lparr>products := insert_many (seed_products e) (products d1)\<rparr>
            in (d2, ''Sample data seeded successfully'')))"

section \<open>The routes and their responses\<close>

text \<open>
  A JSON value as it leaves the server. \<open>JToken\<close> is the JSON string holding the text of
  a token.
\<close>

datatype json =
    JNull
  | JInt int
  | JFloat real
  | JStr string
  | JToken jwt
  | JArr "json list"
  | JObj "(string \<times> json) list"

text \<open>Every key of every object inside a JSON value.\<close>

primrec json_keys :: "json \<Rightarrow> string list" where
  "json_keys JNull = []"
| "json_keys (JInt i) = []"
| "json_keys (JFloat x) = []"
| "json_keys (JStr s) = []"
| "json_keys (JToken t) = []"
| "json_keys (JArr xs) = concat (map json_keys xs)"
| "json_keys (JObj kvs) =
     concat (map (\<lambda>kv. fst kv # snd kv) (map (map_prod (\<lambda>k. k) json_keys) kvs))"

definition json_opt_str :: "string option \<Rightarrow> json" where
  "json_opt_str v = (case v of None \<Rightarrow> JNull | Some s \<Rightarrow> JStr s)"

text \<open>
  The serialisation of each response model: the fields of the class, under their names in
  the source (lines 33-38, 49-59, 65-76, 96-106).
\<close>

definition User_json :: "User \<Rightarrow> json" where
  "User_json u =
     JObj [(''id'', JStr (user_id u)), (''email'', JStr (email u)),
           (''name'', JStr (user_name u)), (''created_at'', JStr (user_created_at u))]"

definition Token_json :: "Token \<Rightarrow> json" where
  "Token_json t =
     JObj [(''access_token'', JToken (access_token t)), (''token_type'', JStr (token_type t)),
           (''user'', User_json (token_user t))]"

definition Category_json :: "Category \<Rightarrow> json" where
  "Category_json c =
     JObj [(''id'', JStr (category_id c)), (''name'', JStr (category_name c)),
           (''description'', json_opt_str (category_description c)),
           (''created_at'', JStr (category_created_at c))]"

definition Product_json :: "Product \<Rightarrow> json" where
  "Product_json p =
     JObj [(''id'', JStr (product_id p)), (''name'', JStr (name p)), (''sku'', JStr (sku p)),
           (''category'', JStr (category p)), (''quantity'', JInt (quantity p)),
           (''unit_price'', JFloat (unit_price p)), (''reorder_level'', JInt (reorder_level p)),
           (''description'', json_opt_str (description p)),
           (''created_at'', JStr (created_at p)), (''updated_at'', JStr (updated_at p))]"

definition DashboardStats_json :: "DashboardStats \<Rightarrow> json" where
  "DashboardStats_json s =
     JObj [(''total_products'', JInt (total_products s)),
           (''total_categories'', JInt (total_categories s)),
           (''low_stock_count'', JInt (low_stock_count s)),
           (''total_stock_value'', JFloat (total_stock_value s)),
           (''total_quantity'', JInt (total_quantity s))]"

definition StockDistribution_json :: "StockDistribution \<Rightarrow> json" where
  "StockDistribution_json s =
     JObj [(''category'', JStr (sd_category s)), (''count'', JInt (sd_count s)),
           (''total_value'', JFloat (sd_total_value s))]"

text \<open>
  What a route returns: the value of its \<open>response_model\<close>, the dict \<open>{"message": ...}\<close>
  of the two routes without one, or the HTTPException raised.
\<close>

datatype response =
    TokenResponse Token
  | UserResponse User
  | CategoryResponse Category
  | CategoriesResponse "Category list"
  | ProductResponse Product
  | ProductsResponse "Product list"
  | StatsResponse DashboardStats
  | DistributionResponse "StockDistribution list"
  | MessageResponse string
  | ErrorResponse http_error

fun response_json :: "response \<Rightarrow> json" where
  "response_json (TokenResponse t) = Token_json t"
| "response_json (UserResponse u) = User_json u"
| "response_json (CategoryResponse c) = Category_json c"
| "response_json (CategoriesResponse cs) = JArr (map Category_json cs)"
| "response_json (ProductResponse p) = Product_json p"
| "response_json (ProductsResponse ps) = JArr (map Product_json ps)"
| "response_json (StatsResponse s) = DashboardStats_json s"
| "response_json (DistributionResponse ds) = JArr (map StockDistribution_json ds)"
| "response_json (MessageResponse m) = JObj [(''message'', JStr m)]"
| "response_json (ErrorResponse err) = JObj [(''detail'', JStr (detail err))]"

text \<open>
  The routes of \<open>api_router\<close>, one constructor per decorated function, with the bearer
  credentials of the routes that depend on \<open>get_current_user\<close>.
\<close>

datatype request =
    Register UserCreate
  | Login UserLogin
  | GetMe jwt
  | GetCategories jwt
  | CreateCategory jwt CategoryCreate
  | GetProducts jwt "string option" "bool option"
  | CreateProduct jwt ProductCreate
  | UpdateProduct jwt string ProductUpdate
  | DeleteProduct jwt string
  | GetDashboardStats jwt
  | GetStockDistribution jwt
  | SeedData

text \<open>
  \<open>Depends(get_current_user)\<close>: the handler runs with the resolved user, or the request
  ends with the HTTPException of \<open>get_current_user\<close> and the store as it was.
\<close>

definition with_current_user ::
    "db \<Rightarrow> env \<Rightarrow> jwt \<Rightarrow> (User \<Rightarrow> db \<times> response) \<Rightarrow> db \<times> response" where
  "with_current_user d e credentials handler =
     (case get_current_user d e credentials of
        Inl err \<Rightarrow> (d, ErrorResponse err)
      | Inr current_user \<Rightarrow> handler current_user)"

definition finish :: "db \<Rightarrow> ('a \<Rightarrow> response) \<Rightarrow> http_error + db \<times> 'a \<Rightarrow> db \<times> response" where
  "finish d wrap r = (case r of Inl err \<Rightarrow> (d, ErrorResponse err) | Inr (d', x) \<Rightarrow> (d', wrap x))"

fun handle :: "db \<Rightarrow> env \<Rightarrow> request \<Rightarrow> db \<times> response" where
  "handle d e (Register user_data) = finish d TokenResponse (register d e user_data)"
| "handle d e (Login credentials) =
     (case login d e credentials of
        Inl err \<Rightarrow> (d, ErrorResponse err)
      | Inr t \<Rightarrow> (d, TokenResponse t))"
| "handle d e (GetMe c) = with_current_user d e c (\<lambda>u. (d, UserResponse (get_me u)))"
| "handle d e (GetCategories c) =
     with_current_user d e c (\<lambda>u. (d, CategoriesResponse (get_categories d u)))"
| "handle d e (CreateCategory c category_data) =
     with_current_user d e c (\<lambda>u. finish d CategoryResponse (create_category d e category_data u))"
| "handle d e (GetProducts c cat low_stock) =
     with_current_user d e c (\<lambda>u. (d, ProductsResponse (get_products d cat low_stock u)))"
| "handle d e (CreateProduct c product_data) =
     with_current_user d e c (\<lambda>u. finish d ProductResponse (create_product d e product_data u))"
| "handle d e (UpdateProduct c pid product_data) =
     with_current_user d e c
       (\<lambda>u. finish d ProductResponse (update_product d e pid product_data u))"
| "handle d e (DeleteProduct c pid) =
     with_current_user d e c (\<lambda>u. finish d MessageResponse (delete_product d pid u))"
| "handle d e (GetDashboardStats c) =
     with_current_user d e c (\<lambda>u. (d, StatsResponse (get_dashboard_stats d e u)))"
| "handle d e (GetStockDistribution c) =
     with_current_user d e c (\<lambda>u. (d, DistributionResponse (get_stock_distribution d e u)))"
| "handle d e SeedData = (case seed_data d e of (d', m) \<Rightarrow> (d', MessageResponse m))"

section \<open>Non-negative stock figures\<close>

text \<open>
  The property of section 3 of the specification for a product, for the product
  collection, and for the bodies of the two requests that write the three figures.
\<close>

definition nonneg_product :: "Product \<Rightarrow> bool" where
  "nonneg_product p \<longleftrightarrow> 0 \<le> quantity p \<and> 0 \<le> unit_price p \<and> 0 \<le> reorder_level p"

definition nonneg_store :: "db \<Rightarrow> bool" where
  "nonneg_store d \<longleftrightarrow> list_all nonneg_product (products d)"

definition nonneg_opt :: "'a::{zero,ord} option \<Rightarrow> bool" where
  "nonneg_opt v = (case v of None \<Rightarrow> True | Some x \<Rightarrow> 0 \<le> x)"

definition nonneg_create :: "ProductCreate \<Rightarrow> bool" where
  "nonneg_create r \<longleftrightarrow>
     0 \<le> pc_quantity r \<and> 0 \<le> pc_unit_price r \<and> nonneg_opt (pc_reorder_level r)"

definition nonneg_update :: "ProductUpdate \<Rightarrow> bool" where
  "nonneg_update r \<longleftrightarrow>
     nonneg_opt (pu_quantity r) \<and> nonneg_opt (pu_unit_price r) \<and> nonneg_opt (pu_reorder_level r)"

fun nonneg_request :: "request \<Rightarrow> bool" where
  "nonneg_request (CreateProduct c r) = nonneg_create r"
| "nonneg_request (UpdateProduct c pid r) = nonneg_update r"
| "nonneg_request _ = True"

section \<open>Stores that differ in password hashes only\<close>

text \<open>
  Two user documents with the same fields of User whose hashes, each on its side, accept
  the same passwords; and two stores, each with its surroundings, that agree on everything
  except the stored hashes and the function that makes new ones. A response that carried a
  stored hash, or anything computed from it beyond the verdict of \<open>pwd_verify\<close>, would
  tell two such stores apart.
\<close>

definition same_user_apart_from_hash :: "env \<Rightarrow> env \<Rightarrow> UserDoc \<Rightarrow> UserDoc \<Rightarrow> bool" where
  "same_user_apart_from_hash e e' x y \<longleftrightarrow>
     User_of_doc x = User_of_doc y \<and>
     (\<forall>pw. pwd_verify e pw (password_hash x) = pwd_verify e' pw (password_hash y))"

definition same_apart_from_hashes :: "env \<Rightarrow> env \<Rightarrow> db \<Rightarrow> db \<Rightarrow> bool" where
  "same_apart_from_hashes e e' d d' \<longleftrightarrow>
     list_all2 (same_user_apart_from_hash e e') (users d) (users d') \<and>
     categories d' = categories d \<and> products d' = products d \<and>
     uuid4 e' = uuid4 e \<and> utcnow_iso e' = utcnow_iso e \<and> utcnow e' = utcnow e \<and>
     JWT_SECRET e' = JWT_SECRET e \<and> fl_round e' = fl_round e"

section \<open>Sample values\<close>

text \<open>
  A store with one user and the two products of the specification's Stats example, on a
  machine whose floats have one decimal place and round downwards.
\<close>

definition example_env :: env where
  "example_env =
     \<lparr>uuid4 = (\<lambda>n. ''id-new''), utcnow_iso = (\<lambda>n. ''2026-01-01T00:00:00+00:00''),
      utcnow = 1000, pwd_hash = (\<lambda>pw. ''#'' @ pw), pwd_verify = (\<lambda>pw h. h = ''#'' @ pw),
      JWT_SECRET = ''secret'', fl_round = (\<lambda>x. of_int \<lfloor>x * 10\<rfloor> / 10)\<rparr>"

definition example_user :: User where
  "example_user =
     \<lparr>user_id = ''u1'', email = ''ann@example.org'', user_name = ''Ann'',
      user_created_at = ''2025-12-31T00:00:00+00:00''\<rparr>"

definition example_user_doc :: UserDoc where
  "example_user_doc =
     \<lparr>user_id = ''u1'', email = ''ann@example.org'', user_name = ''Ann'',
      user_created_at = ''2025-12-31T00:00:00+00:00'', password_hash = ''#pw''\<rparr>"

definition example_product :: "string \<Rightarrow> string \<Rightarrow> int \<Rightarrow> real \<Rightarrow> int \<Rightarrow> Product" where
  "example_product i s q pr r =
     \<lparr>product_id = i, name = ''item'', sku = s, category = ''Electronics'', quantity = q,
      unit_price = pr, reorder_level = r, description = None,
      created_at = ''2025-12-31T00:00:00+00:00'', updated_at = ''2025-12-31T00:00:00+00:00''\<rparr>"

definition example_db :: db where
  "example_db =
     \<lparr>users = [example_user_doc], categories = [],
      products = [example_product ''p1'' ''A-1'' 25 1299.99 10,
                  example_product ''p2'' ''A-2'' 5 24.99 20]\<rparr>"

text \<open>
  The two products of the Stats example as the sample machine stores them: the floats of
  the literals 1299.99 and 24.99 are 1299.9 and 24.9 there.
\<close>

definition example_stats_db :: db where
  "example_stats_db =
     \<lparr>users = [example_user_doc], categories = [],
      products = [example_product ''p1'' ''A-1'' 25 1299.9 10,
                  example_product ''p2'' ''A-2'' 5 24.9 20]\<rparr>"

text \<open>
  The sample store with another hash for the same password, and surroundings whose
  \<open>pwd_verify\<close> accepts the password for it.
\<close>

definition example_db_rehashed :: db where
  "example_db_rehashed =
     example_db\<lparr>users := [example_user_doc\<lparr>password_hash := ''%pw%''\<rparr>]\<rparr>"

definition example_env_rehashed :: env where
  "example_env_rehashed =
     example_env\<lparr>pwd_hash := (\<lambda>pw. ''%'' @ pw @ ''%''),
                 pwd_verify := (\<lambda>pw h. h = ''%'' @ pw @ ''%'')\<rparr>"

definition example_create :: "string \<Rightarrow> int \<Rightarrow> ProductCreate" where
  "example_create s q =
     \<lparr>pc_name = ''item'', pc_sku = s, pc_category = ''Electronics'', pc_quantity = q,
      pc_unit_price = 2, pc_reorder_level = None, pc_description = None\<rparr>"

definition example_patch :: "string option \<Rightarrow> int option \<Rightarrow> ProductUpdate" where
  "example_patch s q =
     \<lparr>pu_name = None, pu_sku = s, pu_category = None, pu_quantity = q, pu_unit_price = None,
      pu_reorder_level = None, pu_description = None\<rparr>"

definition negative_create :: ProductCreate where
  "negative_create =
     \<lparr>pc_name = ''item'', pc_sku = ''B-1'', pc_category = ''Electronics'', pc_quantity = - 5,
      pc_unit_price = - 1, pc_reorder_level = Some (- 2), pc_description = None\<rparr>"

section \<open>The store operations\<close>

lemmas example_defs = example_db_def example_env_def example_user_def example_user_doc_def
  example_product_def example_create_def example_patch_def


lemma find_one_None_iff: "find_one q xs = None \<longleftrightarrow> (\<forall>x\<in>set xs. \<not> q x)"
  by (auto simp: find_one_def find_None_iff)

lemma find_one_Some_mem: "find_one q xs = Some x \<Longrightarrow> x \<in> set xs \<and> q x"
  by (induction xs) (auto simp: find_one_def split: if_splits)

lemma find_one_first:
  "find_one q xs = Some x \<Longrightarrow>
     \<exists>i<length xs. xs ! i = x \<and> q x \<and> (\<forall>j<i. \<not> q (xs ! j))"
  unfolding find_one_def find_Some_iff by blast

lemma update_one_first:
  "i < length xs \<Longrightarrow> q (xs ! i) \<Longrightarrow> \<forall>j<i. \<not> q (xs ! j) \<Longrightarrow>
     update_one q f xs = xs[i := f (xs ! i)]"
proof (induction xs arbitrary: i)
  case Nil
  then show ?case by simp
next
  case (Cons x xs)
  show ?case
  proof (cases i)
    case 0
    with Cons.prems show ?thesis by simp
  next
    case (Suc k)
    from Cons.prems Suc have nq: "\<not> q x" by auto
    from Cons.prems Suc have "k < length xs" "q (xs ! k)" "\<forall>j<k. \<not> q (xs ! j)" by auto
    then have "update_one q f xs = xs[k := f (xs ! k)]" by (rule Cons.IH)
    with nq Suc show ?thesis by simp
  qed
qed

lemma find_one_update_one:
  "find_one q xs = Some x \<Longrightarrow> q (f x) \<Longrightarrow> find_one q (update_one q f xs) = Some (f x)"
  by (induction xs) (auto simp: find_one_def split: if_splits)

lemma update_one_set:
  "y \<in> set (update_one q f xs) \<Longrightarrow> y \<in> set xs \<or> (\<exists>x\<in>set xs. q x \<and> y = f x)"
  by (induction xs) (auto split: if_splits)

lemma delete_one_set: "delete_one q xs = (ys, n) \<Longrightarrow> set ys \<subseteq> set xs"
  by (induction xs arbitrary: ys n) (auto split: if_splits prod.splits)

section \<open>Listing products\<close>

text \<open>
  C7. With \<open>low_stock\<close> true, \<open>get_products\<close> returns the products of the fetch (those
  matching the category filter, at most 1000) whose quantity is at most their reorder level,
  in their order: a product is returned exactly when it was fetched and is low in stock.
  The test filters the fetched list and is no part of the query: of 1000 well-stocked
  products followed by one low in stock, the fetch holds the first 1000 and the answer is
  empty, where a query for low stock would have found the last.
\<close>

theorem get_products_low_stock_exact:
  "get_products d cat None u = take 1000 (filter (category_query cat) (products d)) \<and>
   get_products d cat (Some True) u =
     filter (\<lambda>p. quantity p \<le> reorder_level p) (get_products d cat None u) \<and>
   (\<forall>p. p \<in> set (get_products d cat (Some True) u) \<longleftrightarrow>
        p \<in> set (get_products d cat None u) \<and> quantity p \<le> reorder_level p) \<and>
   get_products
     \<lparr>users = [], categories = [],
      products = replicate 1000 (example_product ''p1'' ''A-1'' 25 1299.99 10) @
                 [example_product ''p2'' ''A-2'' 5 24.99 20]\<rparr> None (Some True) u = [] \<and>
   take 1000 (filter (\<lambda>p. quantity p \<le> reorder_level p)
     (replicate 1000 (example_product ''p1'' ''A-1'' 25 1299.99 10) @
      [example_product ''p2'' ''A-2'' 5 24.99 20])) = [example_product ''p2'' ''A-2'' 5 24.99 20]"
proof -
  have f: "get_products d cat None u = take 1000 (filter (category_query cat) (products d))"
    by (simp add: get_products_def find_to_list_def)
  have l: "get_products d cat (Some True) u =
     filter (\<lambda>p. quantity p \<le> reorder_level p) (get_products d cat None u)"
    by (simp add: get_products_def is_low_stock_def[abs_def])
  have m: "\<forall>p. p \<in> set (get_products d cat (Some True) u) \<longleftrightarrow>
        p \<in> set (get_products d cat None u) \<and> quantity p \<le> reorder_level p"
    by (simp add: l)
  have a: "\<not> is_low_stock (example_product ''p1'' ''A-1'' 25 1299.99 10)"
    "is_low_stock (example_product ''p2'' ''A-2'' 5 24.99 20)"
    by (simp_all add: is_low_stock_def example_product_def)
  have c: "get_products
     \<lparr>users = [], categories = [],
      products = replicate 1000 (example_product ''p1'' ''A-1'' 25 1299.99 10) @
                 [example_product ''p2'' ''A-2'' 5 24.99 20]\<rparr> None (Some True) u = []"
    using a by (simp add: get_products_def find_to_list_def category_query_def)
  have q: "take 1000 (filter (\<lambda>p. quantity p \<le> reorder_level p)
     (replicate 1000 (example_product ''p1'' ''A-1'' 25 1299.99 10) @
      [example_product ''p2'' ''A-2'' 5 24.99 20])) = [example_product ''p2'' ''A-2'' 5 24.99 20]"
    using a by (simp add: is_low_stock_def)
  from f l m c q show ?thesis by (intro conjI)
qed

text \<open>
  C10. \<open>low_stock\<close> false is the same as no \<open>low_stock\<close> (the fetched list is returned as
  it is), and the empty string as \<open>category\<close> is the same as no \<open>category\<close> (every product
  matches), for the handler and for the route.
\<close>

theorem get_products_falsy_parameters:
  "get_products d cat (Some False) u = get_products d cat None u \<and>
   get_products d cat (Some False) u = take 1000 (filter (category_query cat) (products d)) \<and>
   get_products d (Some []) low u = get_products d None low u \<and>
   get_products d (Some []) None u = take 1000 (products d) \<and>
   handle d e (GetProducts c cat (Some False)) = handle d e (GetProducts c cat None) \<and>
   handle d e (GetProducts c (Some []) low) = handle d e (GetProducts c None low)"
proof -
  have a: "get_products d cat (Some False) u = get_products d cat None u" for u cat
    by (simp add: get_products_def)
  have b: "get_products d (Some []) low u = get_products d None low u" for u
    by (simp add: get_products_def category_query_def)
  have c: "get_products d cat (Some False) u = take 1000 (filter (category_query cat) (products d))"
    by (simp add: get_products_def find_to_list_def)
  have d: "get_products d (Some []) None u = take 1000 (products d)"
    by (simp add: get_products_def find_to_list_def category_query_def)
  have h1: "handle d e (GetProducts c cat (Some False)) = handle d e (GetProducts c cat None)"
    by (simp add: a)
  have h2: "handle d e (GetProducts c (Some []) low) = handle d e (GetProducts c None low)"
    by (simp add: b)
  from a b c d h1 h2 show ?thesis by (intro conjI)
qed

section \<open>Dashboard statistics\<close>

lemma py_sum_acc: "foldl (\<lambda>acc x. acc + x) a xs = a + sum_list (xs :: int list)"
  by (induction xs arbitrary: a) simp_all

lemma py_sum_sum_list: "py_sum xs = sum_list xs"
  by (simp add: py_sum_def py_sum_acc)

lemma py_sum_float_fold:
  "py_sum_float e (map (stock_value e) ps) =
     foldl (\<lambda>acc p. fl_round e (acc + fl_round e (fl_round e (of_int (quantity p)) * unit_price p)))
       (fl_round e 0) ps"
  by (simp add: py_sum_float_def foldl_map stock_value_def fl_add_def fl_mul_def float_of_int_def)

text \<open>
  C8. Over the fetched products, \<open>get_dashboard_stats\<close> returns their number, the number
  of those with quantity at most reorder level, and the sum of the quantities, all exact;
  the total stock value is the sum of quantity times unit price in float arithmetic, taken
  from 0 in the order of the fetch, every product and every addition rounded. For two
  products (25 at the float of 1299.99, 5 at the float of 24.99) the total quantity is 30
  and the total stock value is the float expression (0 + 25 * 1299.99) + 5 * 24.99, which
  is the float expression 25 * 1299.99 + 5 * 24.99 as soon as rounding leaves 0 and every
  float as it is.
\<close>

theorem get_dashboard_stats_totals:
  "(let fetched = take 1000 (products d); s = get_dashboard_stats d e u
    in total_products s = int (length fetched) \<and>
       low_stock_count s = int (length (filter (\<lambda>p. quantity p \<le> reorder_level p) fetched)) \<and>
       total_quantity s = (\<Sum>p\<leftarrow>fetched. quantity p) \<and>
       total_stock_value s =
         foldl (\<lambda>acc p. fl_round e
                  (acc + fl_round e (fl_round e (of_int (quantity p)) * unit_price p)))
           (fl_round e 0) fetched) \<and>
   (products d = [p1, p2] \<and> quantity p1 = 25 \<and> unit_price p1 = fl_round e 1299.99 \<and>
    quantity p2 = 5 \<and> unit_price p2 = fl_round e 24.99 \<longrightarrow>
      total_quantity (get_dashboard_stats d e u) = 30 \<and>
      total_stock_value (get_dashboard_stats d e u) =
        fl_add e
          (fl_add e (float_of_int e 0) (fl_mul e (float_of_int e 25) (fl_round e 1299.99)))
          (fl_mul e (float_of_int e 5) (fl_round e 24.99))) \<and>
   (products d = [p1, p2] \<and> quantity p1 = 25 \<and> unit_price p1 = fl_round e 1299.99 \<and>
    quantity p2 = 5 \<and> unit_price p2 = fl_round e 24.99 \<and>
    fl_round e 0 = 0 \<and> (\<forall>x. fl_round e (fl_round e x) = fl_round e x) \<longrightarrow>
      total_stock_value (get_dashboard_stats d e u) =
        fl_add e (fl_mul e (float_of_int e 25) (fl_round e 1299.99))
                 (fl_mul e (float_of_int e 5) (fl_round e 24.99)))"
proof -
  have g: "(let fetched = take 1000 (products d); s = get_dashboard_stats d e u
    in total_products s = int (length fetched) \<and>
       low_stock_count s = int (length (filter (\<lambda>p. quantity p \<le> reorder_level p) fetched)) \<and>
       total_quantity s = (\<Sum>p\<leftarrow>fetched. quantity p) \<and>
       total_stock_value s =
         foldl (\<lambda>acc p. fl_round e
                  (acc + fl_round e (fl_round e (of_int (quantity p)) * unit_price p)))
           (fl_round e 0) fetched)"
    by (simp add: get_dashboard_stats_def Let_def find_to_list_def py_sum_sum_list sum_list_triv
        py_sum_float_fold is_low_stock_def[abs_def])
  have i1: "products d = [p1, p2] \<and> quantity p1 = 25 \<and> unit_price p1 = fl_round e 1299.99 \<and>
    quantity p2 = 5 \<and> unit_price p2 = fl_round e 24.99 \<longrightarrow>
      total_quantity (get_dashboard_stats d e u) = 30 \<and>
      total_stock_value (get_dashboard_stats d e u) =
        fl_add e
          (fl_add e (float_of_int e 0) (fl_mul e (float_of_int e 25) (fl_round e 1299.99)))
          (fl_mul e (float_of_int e 5) (fl_round e 24.99))"
    by (simp add: get_dashboard_stats_def Let_def find_to_list_def py_sum_def py_sum_float_def
        stock_value_def)
  have i2: "products d = [p1, p2] \<and> quantity p1 = 25 \<and> unit_price p1 = fl_round e 1299.99 \<and>
    quantity p2 = 5 \<and> unit_price p2 = fl_round e 24.99 \<and>
    fl_round e 0 = 0 \<and> (\<forall>x. fl_round e (fl_round e x) = fl_round e x) \<longrightarrow>
      total_stock_value (get_dashboard_stats d e u) =
        fl_add e (fl_mul e (float_of_int e 25) (fl_round e 1299.99))
                 (fl_mul e (float_of_int e 5) (fl_round e 24.99))"
    by (simp add: get_dashboard_stats_def Let_def find_to_list_def py_sum_float_def
        stock_value_def fl_add_def fl_mul_def float_of_int_def)
  from g i1 i2 show ?thesis by (intro conjI)
qed

lemma example_fl_round: "fl_round example_env x = of_int \<lfloor>x * 10\<rfloor> / 10"
  by (simp add: example_env_def)

theorem get_dashboard_stats_totals_witness:
  "products example_stats_db =
     [example_product ''p1'' ''A-1'' 25 1299.9 10, example_product ''p2'' ''A-2'' 5 24.9 20] \<and>
   fl_round example_env 1299.99 = 1299.9 \<and> fl_round example_env 24.99 = 24.9 \<and>
   fl_round example_env 0 = 0 \<and>
   total_products (get_dashboard_stats example_stats_db example_env example_user) = 2 \<and>
   low_stock_count (get_dashboard_stats example_stats_db example_env example_user) = 1 \<and>
   total_quantity (get_dashboard_stats example_stats_db example_env example_user) = 30 \<and>
   total_stock_value (get_dashboard_stats example_stats_db example_env example_user) = 32622 \<and>
   fl_add example_env (fl_mul example_env (float_of_int example_env 25) 1299.9)
     (fl_mul example_env (float_of_int example_env 5) 24.9) = 32622 \<and>
   (25 * 1299.99 + 5 * 24.99 :: real) = 32624.7"
proof -
  have p: "products example_stats_db =
     [example_product ''p1'' ''A-1'' 25 1299.9 10, example_product ''p2'' ''A-2'' 5 24.9 20]"
    by (simp add: example_stats_db_def)
  have q: "quantity (example_product ''p1'' ''A-1'' 25 1299.9 10) = 25"
    "quantity (example_product ''p2'' ''A-2'' 5 24.9 20) = 5"
    "unit_price (example_product ''p1'' ''A-1'' 25 1299.9 10) = 1299.9"
    "unit_price (example_product ''p2'' ''A-2'' 5 24.9 20) = 24.9"
    "reorder_level (example_product ''p1'' ''A-1'' 25 1299.9 10) = 10"
    "reorder_level (example_product ''p2'' ''A-2'' 5 24.9 20) = 20"
    by (simp_all add: example_product_def)
  have r: "fl_round example_env 1299.99 = 1299.9" "fl_round example_env 24.99 = 24.9"
    "fl_round example_env 0 = 0"
    by (simp_all add: example_fl_round)
  have idem: "\<forall>x. fl_round example_env (fl_round example_env x) = fl_round example_env x"
    by (simp add: example_fl_round)
  have v: "fl_add example_env (fl_mul example_env (float_of_int example_env 25) 1299.9)
     (fl_mul example_env (float_of_int example_env 5) 24.9) = 32622"
    by (simp add: fl_add_def fl_mul_def float_of_int_def example_fl_round)
  note t = get_dashboard_stats_totals[where d = example_stats_db and e = example_env
      and u = example_user and ?p1.0 = "example_product ''p1'' ''A-1'' 25 1299.9 10"
      and ?p2.0 = "example_product ''p2'' ''A-2'' 5 24.9 20"]
  have h: "products example_stats_db =
      [example_product ''p1'' ''A-1'' 25 1299.9 10, example_product ''p2'' ''A-2'' 5 24.9 20] \<and>
    quantity (example_product ''p1'' ''A-1'' 25 1299.9 10) = 25 \<and>
    unit_price (example_product ''p1'' ''A-1'' 25 1299.9 10) = fl_round example_env 1299.99 \<and>
    quantity (example_product ''p2'' ''A-2'' 5 24.9 20) = 5 \<and>
    unit_price (example_product ''p2'' ''A-2'' 5 24.9 20) = fl_round example_env 24.99 \<and>
    fl_round example_env 0 = 0 \<and>
    (\<forall>x. fl_round example_env (fl_round example_env x) = fl_round example_env x)"
    using p q r idem by (simp only: simp_thms)
  from t have "total_stock_value (get_dashboard_stats example_stats_db example_env example_user) =
      fl_add example_env
        (fl_mul example_env (float_of_int example_env 25) (fl_round example_env 1299.99))
        (fl_mul example_env (float_of_int example_env 5) (fl_round example_env 24.99))"
    using h by blast
  then have s: "total_stock_value (get_dashboard_stats example_stats_db example_env example_user) = 32622"
    by (simp only: r v)
  from t have "total_quantity (get_dashboard_stats example_stats_db example_env example_user) = 30"
    using h by blast
  moreover from t have "total_products (get_dashboard_stats example_stats_db example_env example_user) =
      int (length (take 1000 (products example_stats_db)))"
    "low_stock_count (get_dashboard_stats example_stats_db example_env example_user) =
      int (length (filter (\<lambda>p. quantity p \<le> reorder_level p)
        (take 1000 (products example_stats_db))))"
    by (simp_all only: Let_def)
  then have "total_products (get_dashboard_stats example_stats_db example_env example_user) = 2"
    "low_stock_count (get_dashboard_stats example_stats_db example_env example_user) = 1"
    by (simp_all add: p q)
  ultimately show ?thesis using p r s v by simp
qed

section \<open>Seeding twice\<close>

lemma length_seed_categories: "length (seed_categories e) = 5"
  by (simp add: seed_categories_def)

lemma length_seed_products: "length (seed_products e) = 10"
  by (simp add: seed_products_def)

lemma seed_data_seeded: "categories d \<noteq> [] \<Longrightarrow> seed_data d e = (d, ''Data already seeded'')"
  by (simp add: seed_data_def count_documents_def)

lemma seed_data_fresh:
  "categories d = [] \<Longrightarrow>
   seed_data d e =
     (d\<lparr>categories := seed_categories e, products := products d @ seed_products e\<rparr>,
      ''Sample data seeded successfully'')"
  by (simp add: seed_data_def count_documents_def insert_many_def)

lemma seed_categories_nonempty: "seed_categories e \<noteq> []"
  by (simp add: seed_categories_def)

text \<open>
  C9. With a category in the store, \<open>seed_data\<close> answers "Data already seeded" and returns
  the store as it was; with none, it appends the 5 categories and the 10 products of the
  catalogue; so a second call in a row changes nothing.
\<close>

theorem seed_data_idempotent:
  "(categories d \<noteq> [] \<longrightarrow> seed_data d e = (d, ''Data already seeded'')) \<and>
   (categories d = [] \<longrightarrow>
      (let d' = fst (seed_data d e)
       in snd (seed_data d e) = ''Sample data seeded successfully'' \<and>
          categories d' = seed_categories e \<and> length (categories d') = 5 \<and>
          products d' = products d @ seed_products e \<and>
          length (products d') = length (products d) + 10 \<and>
          users d' = users d)) \<and>
   seed_data (fst (seed_data d e)) e' = (fst (seed_data d e), ''Data already seeded'')"
proof (cases "categories d = []")
  case True
  then show ?thesis
    by (simp add: seed_data_fresh seed_data_seeded seed_categories_nonempty
        length_seed_categories length_seed_products)
next
  case False
  then show ?thesis by (simp add: seed_data_seeded)
qed

theorem seed_data_idempotent_witness:
  "categories example_db = [] \<and>
   snd (seed_data example_db example_env) = ''Sample data seeded successfully'' \<and>
   length (categories (fst (seed_data example_db example_env))) = 5 \<and>
   length (products (fst (seed_data example_db example_env))) = 12 \<and>
   categories (fst (seed_data example_db example_env)) \<noteq> [] \<and>
   seed_data (fst (seed_data example_db example_env)) example_env =
     (fst (seed_data example_db example_env), ''Data already seeded'')"
proof -
  have e: "categories example_db = []" by (simp add: example_db_def)
  have n: "length (products example_db) = 2" by (simp add: example_db_def)
  from seed_data_idempotent[of example_db example_env example_env] e n
  have first: "snd (seed_data example_db example_env) = ''Sample data seeded successfully''"
    "categories (fst (seed_data example_db example_env)) = seed_categories example_env"
    "length (categories (fst (seed_data example_db example_env))) = 5"
    "length (products (fst (seed_data example_db example_env))) = 12"
    by (simp_all add: Let_def length_seed_categories length_seed_products)
  from first(3) have ne: "categories (fst (seed_data example_db example_env)) \<noteq> []" by auto
  with seed_data_idempotent[of "fst (seed_data example_db example_env)" example_env example_env]
  have "seed_data (fst (seed_data example_db example_env)) example_env =
     (fst (seed_data example_db example_env), ''Data already seeded'')" by simp
  with e first ne show ?thesis by simp
qed

section \<open>Updating and creating products\<close>

lemma product_id_set_update_data [simp]: "product_id (set_update_data patch now p) = product_id p"
  by (simp add: set_update_data_def)

lemma update_product_Inr:
  assumes "update_product d e pid patch u = Inr (d', p')"
  shows "\<exists>existing. find_one (\<lambda>p. product_id p = pid) (products d) = Some existing \<and>
           p' = set_update_data patch (utcnow_iso e 0) existing \<and>
           d' = d\<lparr>products := update_one (\<lambda>p. product_id p = pid)
                   (set_update_data patch (utcnow_iso e 0)) (products d)\<rparr>"
proof (cases "find_one (\<lambda>p. product_id p = pid) (products d)")
  case None
  with assms show ?thesis by (simp add: update_product_def)
next
  case (Some existing)
  then have q: "product_id existing = pid" by (auto dest: find_one_Some_mem)
  have "find_one (\<lambda>p. product_id p = pid)
          (update_one (\<lambda>p. product_id p = pid) (set_update_data patch (utcnow_iso e 0)) (products d))
        = Some (set_update_data patch (utcnow_iso e 0) existing)"
    using Some q by (intro find_one_update_one) simp_all
  with assms Some show ?thesis
    by (auto simp: update_product_def Let_def split: if_splits)
qed

lemma update_product_existing:
  assumes "find_one (\<lambda>p. product_id p = pid) (products d) = Some existing"
  shows "update_product d e pid patch u =
     (if (case pu_sku patch of
            None \<Rightarrow> False
          | Some s \<Rightarrow> s \<noteq> sku existing \<and>
                     (\<exists>p\<in>set (products d). sku p = s \<and> product_id p \<noteq> pid))
      then Inl (HTTPException 400 ''SKU already exists'')
      else Inr (d\<lparr>products := update_one (\<lambda>p. product_id p = pid)
                    (set_update_data patch (utcnow_iso e 0)) (products d)\<rparr>,
                set_update_data patch (utcnow_iso e 0) existing))"
proof -
  from assms have q: "product_id existing = pid" by (auto dest: find_one_Some_mem)
  have r: "find_one (\<lambda>p. product_id p = pid)
          (update_one (\<lambda>p. product_id p = pid) (set_update_data patch (utcnow_iso e 0)) (products d))
        = Some (set_update_data patch (utcnow_iso e 0) existing)"
    using assms q by (intro find_one_update_one) simp_all
  show ?thesis
  proof (cases "pu_sku patch")
    case None
    with assms r show ?thesis by (simp add: update_product_def Let_def)
  next
    case (Some s)
    have "(find_one (\<lambda>p. sku p = s \<and> product_id p \<noteq> pid) (products d) \<noteq> None) =
        (\<exists>p\<in>set (products d). sku p = s \<and> product_id p \<noteq> pid)"
      unfolding find_one_None_iff by blast
    with Some assms r show ?thesis by (simp add: update_product_def Let_def)
  qed
qed

text \<open>
  C2. For an existing product and any patch, \<open>update_product\<close> refuses the patch exactly
  when its SKU is another one than the product's and a product with another id carries it;
  every other patch is applied: the store differs from the previous one at the first
  product with the given id and nowhere else, that product's fields are the patch's values
  where the patch has one and the previous values where it has None, \<open>updated_at\<close> is the
  current time, \<open>id\<close> and \<open>created_at\<close> are the previous ones, and the product is returned.
\<close>

theorem update_product_frame:
  assumes "find_one (\<lambda>p. product_id p = pid) (products d) = Some existing"
  shows "\<exists>i p'.
       i < length (products d) \<and> products d ! i = existing \<and>
       (\<forall>j<i. product_id (products d ! j) \<noteq> pid) \<and>
       product_id p' = product_id existing \<and>
       created_at p' = created_at existing \<and>
       updated_at p' = utcnow_iso e 0 \<and>
       name p' = (case pu_name patch of None \<Rightarrow> name existing | Some v \<Rightarrow> v) \<and>
       sku p' = (case pu_sku patch of None \<Rightarrow> sku existing | Some v \<Rightarrow> v) \<and>
       category p' = (case pu_category patch of None \<Rightarrow> category existing | Some v \<Rightarrow> v) \<and>
       quantity p' = (case pu_quantity patch of None \<Rightarrow> quantity existing | Some v \<Rightarrow> v) \<and>
       unit_price p' =
         (case pu_unit_price patch of None \<Rightarrow> unit_price existing | Some v \<Rightarrow> v) \<and>
       reorder_level p' =
         (case pu_reorder_level patch of None \<Rightarrow> reorder_level existing | Some v \<Rightarrow> v) \<and>
       description p' =
         (case pu_description patch of None \<Rightarrow> description existing | Some v \<Rightarrow> Some v) \<and>
       update_product d e pid patch u =
         (if (case pu_sku patch of
                None \<Rightarrow> False
              | Some s \<Rightarrow> s \<noteq> sku existing \<and>
                         (\<exists>p\<in>set (products d). sku p = s \<and> product_id p \<noteq> pid))
          then Inl (HTTPException 400 ''SKU already exists'')
          else Inr (d\<lparr>products := (products d)[i := p']\<rparr>, p'))"
proof -
  define p' where "p' = set_update_data patch (utcnow_iso e 0) existing"
  from find_one_first[OF assms] obtain i where
    i: "i < length (products d)" "products d ! i = existing" "product_id existing = pid"
       "\<forall>j<i. product_id (products d ! j) \<noteq> pid"
    by blast
  have "update_one (\<lambda>p. product_id p = pid) (set_update_data patch (utcnow_iso e 0)) (products d)
        = (products d)[i := p']"
    using update_one_first[of i "products d" "\<lambda>p. product_id p = pid"] i p'_def by simp
  with update_product_existing[OF assms, of e patch u]
  have r: "update_product d e pid patch u =
         (if (case pu_sku patch of
                None \<Rightarrow> False
              | Some s \<Rightarrow> s \<noteq> sku existing \<and>
                         (\<exists>p\<in>set (products d). sku p = s \<and> product_id p \<noteq> pid))
          then Inl (HTTPException 400 ''SKU already exists'')
          else Inr (d\<lparr>products := (products d)[i := p']\<rparr>, p'))"
    by (simp add: p'_def)
  have f1: "product_id p' = product_id existing" "created_at p' = created_at existing"
    "updated_at p' = utcnow_iso e 0"
    by (simp_all add: p'_def set_update_data_def)
  have f2: "name p' = (case pu_name patch of None \<Rightarrow> name existing | Some v \<Rightarrow> v)"
    "sku p' = (case pu_sku patch of None \<Rightarrow> sku existing | Some v \<Rightarrow> v)"
    "category p' = (case pu_category patch of None \<Rightarrow> category existing | Some v \<Rightarrow> v)"
    "quantity p' = (case pu_quantity patch of None \<Rightarrow> quantity existing | Some v \<Rightarrow> v)"
    "unit_price p' = (case pu_unit_price patch of None \<Rightarrow> unit_price existing | Some v \<Rightarrow> v)"
    "reorder_level p' =
       (case pu_reorder_level patch of None \<Rightarrow> reorder_level existing | Some v \<Rightarrow> v)"
    "description p' =
       (case pu_description patch of None \<Rightarrow> description existing | Some v \<Rightarrow> Some v)"
    by (simp_all add: p'_def set_update_data_def)
  from i(1,2,4) f1 f2 r show ?thesis by blast
qed

theorem update_product_frame_witness:
  "find_one (\<lambda>p. product_id p = ''p2'') (products example_db) =
     Some (example_product ''p2'' ''A-2'' 5 24.99 20) \<and>
   update_product example_db example_env ''p2'' (example_patch None (Some 7)) example_user =
     Inr (example_db\<lparr>products :=
            [example_product ''p1'' ''A-1'' 25 1299.99 10,
             (example_product ''p2'' ''A-2'' 7 24.99 20)
               \<lparr>updated_at := ''2026-01-01T00:00:00+00:00''\<rparr>]\<rparr>,
          (example_product ''p2'' ''A-2'' 7 24.99 20)
            \<lparr>updated_at := ''2026-01-01T00:00:00+00:00''\<rparr>) \<and>
   (\<exists>i p'. update_product example_db example_env ''p2'' (example_patch None (Some 7))
        example_user = Inr (example_db\<lparr>products := (products example_db)[i := p']\<rparr>, p') \<and>
      quantity p' = 7 \<and> sku p' = ''A-2'' \<and> updated_at p' = ''2026-01-01T00:00:00+00:00'' \<and>
      created_at p' = ''2025-12-31T00:00:00+00:00'') \<and>
   update_product example_db example_env ''p2'' (example_patch (Some ''A-1'') None)
     example_user = Inl (HTTPException 400 ''SKU already exists'')"
proof -
  have f: "find_one (\<lambda>p. product_id p = ''p2'') (products example_db) =
     Some (example_product ''p2'' ''A-2'' 5 24.99 20)"
    by (simp add: find_one_def example_defs)
  have h: "update_product example_db example_env ''p2'' (example_patch None (Some 7)) example_user =
     Inr (example_db\<lparr>products :=
            [example_product ''p1'' ''A-1'' 25 1299.99 10,
             (example_product ''p2'' ''A-2'' 7 24.99 20)
               \<lparr>updated_at := ''2026-01-01T00:00:00+00:00''\<rparr>]\<rparr>,
          (example_product ''p2'' ''A-2'' 7 24.99 20)
            \<lparr>updated_at := ''2026-01-01T00:00:00+00:00''\<rparr>)"
    by (simp add: update_product_def find_one_def set_update_data_def example_defs)
  have v: "pu_quantity (example_patch None (Some 7)) = Some 7"
    "pu_sku (example_patch None (Some 7)) = None"
    "pu_sku (example_patch (Some ''A-1'') None) = Some ''A-1''"
    "sku (example_product ''p2'' ''A-2'' 5 24.99 20) = ''A-2''"
    "created_at (example_product ''p2'' ''A-2'' 5 24.99 20) = ''2025-12-31T00:00:00+00:00''"
    "utcnow_iso example_env 0 = ''2026-01-01T00:00:00+00:00''"
    by (simp_all add: example_defs)
  have c: "\<exists>p\<in>set (products example_db). sku p = ''A-1'' \<and> product_id p \<noteq> ''p2''"
    by (simp add: example_defs)
  from update_product_frame[OF f, of example_env "example_patch None (Some 7)" example_user]
  obtain i p' where
    "update_product example_db example_env ''p2'' (example_patch None (Some 7)) example_user =
       (if (case pu_sku (example_patch None (Some 7)) of
              None \<Rightarrow> False
            | Some s \<Rightarrow> s \<noteq> sku (example_product ''p2'' ''A-2'' 5 24.99 20) \<and>
                       (\<exists>p\<in>set (products example_db). sku p = s \<and> product_id p \<noteq> ''p2''))
        then Inl (HTTPException 400 ''SKU already exists'')
        else Inr (example_db\<lparr>products := (products example_db)[i := p']\<rparr>, p'))"
    "created_at p' = created_at (example_product ''p2'' ''A-2'' 5 24.99 20)"
    "updated_at p' = utcnow_iso example_env 0"
    "sku p' = (case pu_sku (example_patch None (Some 7)) of
         None \<Rightarrow> sku (example_product ''p2'' ''A-2'' 5 24.99 20) | Some v \<Rightarrow> v)"
    "quantity p' = (case pu_quantity (example_patch None (Some 7)) of
         None \<Rightarrow> quantity (example_product ''p2'' ''A-2'' 5 24.99 20) | Some v \<Rightarrow> v)"
    by blast
  with v have a: "\<exists>i p'. update_product example_db example_env ''p2''
        (example_patch None (Some 7)) example_user =
          Inr (example_db\<lparr>products := (products example_db)[i := p']\<rparr>, p') \<and>
      quantity p' = 7 \<and> sku p' = ''A-2'' \<and> updated_at p' = ''2026-01-01T00:00:00+00:00'' \<and>
      created_at p' = ''2025-12-31T00:00:00+00:00''"
    by auto
  from update_product_frame[OF f, of example_env "example_patch (Some ''A-1'') None" example_user]
  obtain k q' where
    "update_product example_db example_env ''p2'' (example_patch (Some ''A-1'') None)
       example_user =
       (if (case pu_sku (example_patch (Some ''A-1'') None) of
              None \<Rightarrow> False
            | Some s \<Rightarrow> s \<noteq> sku (example_product ''p2'' ''A-2'' 5 24.99 20) \<and>
                       (\<exists>p\<in>set (products example_db). sku p = s \<and> product_id p \<noteq> ''p2''))
        then Inl (HTTPException 400 ''SKU already exists'')
        else Inr (example_db\<lparr>products := (products example_db)[k := q']\<rparr>, q'))"
    by blast
  with v c have b: "update_product example_db example_env ''p2''
        (example_patch (Some ''A-1'') None) example_user =
          Inl (HTTPException 400 ''SKU already exists'')"
    by auto
  from f h a b show ?thesis by blast
qed

text \<open>
  C3. \<open>create_product\<close> answers 400 "SKU already exists" when a stored product has the
  requested SKU; \<open>update_product\<close> of an existing product answers the same when the patch
  has a SKU other than the product's own that a product with another id carries, and
  succeeds when the patch's SKU is the product's own.
\<close>

theorem duplicate_sku_rejected:
  "((\<exists>p\<in>set (products d). sku p = pc_sku req) \<longrightarrow>
      create_product d e req u = Inl (HTTPException 400 ''SKU already exists'')) \<and>
   (find_one (\<lambda>p. product_id p = pid) (products d) = Some existing \<and>
    pu_sku patch = Some s \<and> s \<noteq> sku existing \<and>
    (\<exists>p\<in>set (products d). sku p = s \<and> product_id p \<noteq> pid) \<longrightarrow>
      update_product d e pid patch u = Inl (HTTPException 400 ''SKU already exists'')) \<and>
   (find_one (\<lambda>p. product_id p = pid) (products d) = Some existing \<and>
    pu_sku patch = Some (sku existing) \<longrightarrow>
      (\<exists>d' p'. update_product d e pid patch u = Inr (d', p') \<and> sku p' = sku existing))"
proof (intro conjI impI)
  assume "\<exists>p\<in>set (products d). sku p = pc_sku req"
  then have "find_one (\<lambda>p. sku p = pc_sku req) (products d) \<noteq> None"
    by (simp add: find_one_None_iff)
  then show "create_product d e req u = Inl (HTTPException 400 ''SKU already exists'')"
    by (auto simp: create_product_def)
next
  assume a: "find_one (\<lambda>p. product_id p = pid) (products d) = Some existing \<and>
    pu_sku patch = Some s \<and> s \<noteq> sku existing \<and>
    (\<exists>p\<in>set (products d). sku p = s \<and> product_id p \<noteq> pid)"
  then have "find_one (\<lambda>p. sku p = s \<and> product_id p \<noteq> pid) (products d) \<noteq> None"
    by (simp add: find_one_None_iff)
  with a show "update_product d e pid patch u = Inl (HTTPException 400 ''SKU already exists'')"
    by (simp add: update_product_def)
next
  assume a: "find_one (\<lambda>p. product_id p = pid) (products d) = Some existing \<and>
    pu_sku patch = Some (sku existing)"
  then have q: "product_id existing = pid" by (auto dest: find_one_Some_mem)
  have "find_one (\<lambda>p. product_id p = pid)
          (update_one (\<lambda>p. product_id p = pid) (set_update_data patch (utcnow_iso e 0)) (products d))
        = Some (set_update_data patch (utcnow_iso e 0) existing)"
    using a q by (intro find_one_update_one) simp_all
  with a show "\<exists>d' p'. update_product d e pid patch u = Inr (d', p') \<and> sku p' = sku existing"
    by (simp add: update_product_def Let_def set_update_data_def)
qed

theorem duplicate_sku_rejected_witness:
  "create_product example_db example_env (example_create ''A-1'' 1) example_user =
     Inl (HTTPException 400 ''SKU already exists'') \<and>
   update_product example_db example_env ''p2'' (example_patch (Some ''A-1'') None) example_user =
     Inl (HTTPException 400 ''SKU already exists'') \<and>
   (\<exists>d' p'. update_product example_db example_env ''p2'' (example_patch (Some ''A-2'') None)
       example_user = Inr (d', p') \<and> sku p' = ''A-2'')"
proof -
  have a: "\<exists>p\<in>set (products example_db). sku p = pc_sku (example_create ''A-1'' 1)"
    by (simp add: example_defs)
  have f: "find_one (\<lambda>p. product_id p = ''p2'') (products example_db) =
      Some (example_product ''p2'' ''A-2'' 5 24.99 20)"
    by (simp add: find_one_def example_defs)
  have b: "pu_sku (example_patch (Some ''A-1'') None) = Some ''A-1'' \<and>
      ''A-1'' \<noteq> sku (example_product ''p2'' ''A-2'' 5 24.99 20) \<and>
      (\<exists>p\<in>set (products example_db). sku p = ''A-1'' \<and> product_id p \<noteq> ''p2'')"
    by (simp add: example_defs)
  have c: "pu_sku (example_patch (Some ''A-2'') None) =
      Some (sku (example_product ''p2'' ''A-2'' 5 24.99 20))"
    by (simp add: example_defs)
  have s: "sku (example_product ''p2'' ''A-2'' 5 24.99 20) = ''A-2''"
    by (simp add: example_defs)
  from a duplicate_sku_rejected[where d = example_db and req = "example_create ''A-1'' 1"
      and e = example_env and u = example_user]
  have r1: "create_product example_db example_env (example_create ''A-1'' 1) example_user =
     Inl (HTTPException 400 ''SKU already exists'')" by blast
  from f b duplicate_sku_rejected[where d = example_db and pid = "''p2''"
      and existing = "example_product ''p2'' ''A-2'' 5 24.99 20"
      and patch = "example_patch (Some ''A-1'') None" and s = "''A-1''"
      and e = example_env and u = example_user]
  have r2: "update_product example_db example_env ''p2'' (example_patch (Some ''A-1'') None)
      example_user = Inl (HTTPException 400 ''SKU already exists'')" by blast
  from f c duplicate_sku_rejected[where d = example_db and pid = "''p2''"
      and existing = "example_product ''p2'' ''A-2'' 5 24.99 20"
      and patch = "example_patch (Some ''A-2'') None"
      and e = example_env and u = example_user]
  have r3: "\<exists>d' p'. update_product example_db example_env ''p2''
      (example_patch (Some ''A-2'') None) example_user = Inr (d', p') \<and>
      sku p' = sku (example_product ''p2'' ''A-2'' 5 24.99 20)" by blast
  from r1 r2 r3 s show ?thesis by simp
qed

lemma nonneg_set_update_data:
  "nonneg_update patch \<Longrightarrow> nonneg_product p \<Longrightarrow> nonneg_product (set_update_data patch now p)"
  by (auto simp: nonneg_update_def nonneg_product_def nonneg_opt_def set_update_data_def
      split: option.splits)

lemma nonneg_Product_of_create:
  "nonneg_create r \<Longrightarrow> nonneg_product (Product_of_create e r)"
  by (auto simp: nonneg_create_def nonneg_product_def nonneg_opt_def Product_of_create_def
      split: option.splits)

lemma create_product_nonneg:
  assumes "nonneg_store d" "nonneg_create r" "create_product d e r u = Inr (d', p)"
  shows "nonneg_store d' \<and> nonneg_product p"
  using assms nonneg_Product_of_create[of r e]
  by (auto simp: create_product_def nonneg_store_def insert_one_def Let_def split: option.splits)

lemma update_product_nonneg:
  assumes "nonneg_store d" "nonneg_update r" "update_product d e pid r u = Inr (d', p)"
  shows "nonneg_store d' \<and> nonneg_product p"
proof -
  from update_product_Inr[OF assms(3)] obtain existing where
    ex: "find_one (\<lambda>p. product_id p = pid) (products d) = Some existing" and
    p: "p = set_update_data r (utcnow_iso e 0) existing" and
    d': "d' = d\<lparr>products := update_one (\<lambda>p. product_id p = pid)
                   (set_update_data r (utcnow_iso e 0)) (products d)\<rparr>"
    by blast
  have all: "\<forall>x\<in>set (products d). nonneg_product x"
    using assms(1) by (simp add: nonneg_store_def list_all_iff)
  from ex have "existing \<in> set (products d)" by (auto dest: find_one_Some_mem)
  with all assms(2) p have "nonneg_product p" by (simp add: nonneg_set_update_data)
  moreover have "\<forall>y\<in>set (products d'). nonneg_product y"
    using all assms(2) d' by (auto dest!: update_one_set simp: nonneg_set_update_data)
  ultimately show ?thesis by (simp add: nonneg_store_def list_all_iff)
qed

lemma delete_product_nonneg:
  assumes "nonneg_store d" "delete_product d pid u = Inr (d', m)"
  shows "nonneg_store d'"
  using assms
  by (auto simp: delete_product_def nonneg_store_def list_all_iff
      split: prod.splits if_splits dest!: delete_one_set)

lemma seed_products_nonneg: "list_all nonneg_product (seed_products e)"
  by (simp add: seed_products_def seed_product_def nonneg_product_def)

lemma seed_data_nonneg: "nonneg_store d \<Longrightarrow> nonneg_store (fst (seed_data d e))"
  using seed_products_nonneg[of e]
  by (simp add: seed_data_def nonneg_store_def insert_many_def Let_def)

lemma register_products: "register d e r = Inr (d', t) \<Longrightarrow> products d' = products d"
  by (auto simp: register_def Let_def split: option.splits)

lemma create_category_products:
  "create_category d e r u = Inr (d', c) \<Longrightarrow> products d' = products d"
  by (auto simp: create_category_def Let_def split: option.splits)

lemma handle_nonneg:
  assumes "nonneg_store d" "nonneg_request r"
  shows "nonneg_store (fst (handle d e r))"
proof (cases r)
  case (Register x)
  with assms show ?thesis
    by (auto simp: finish_def nonneg_store_def split: sum.splits dest: register_products)
next
  case (Login x)
  with assms show ?thesis by (simp split: sum.splits)
next
  case (CreateCategory c x)
  with assms show ?thesis
    by (auto simp: with_current_user_def finish_def nonneg_store_def
        split: sum.splits dest: create_category_products)
next
  case (CreateProduct c x)
  with assms show ?thesis
    by (auto simp: with_current_user_def finish_def split: sum.splits
        dest: create_product_nonneg)
next
  case (UpdateProduct c pid x)
  with assms show ?thesis
    by (auto simp: with_current_user_def finish_def split: sum.splits
        dest: update_product_nonneg)
next
  case (DeleteProduct c pid)
  with assms show ?thesis
    by (auto simp: with_current_user_def finish_def split: sum.splits
        dest: delete_product_nonneg)
next
  case SeedData
  with assms seed_data_nonneg[of d e] show ?thesis by (auto split: prod.splits)
qed (use assms in \<open>simp_all add: with_current_user_def split: sum.splits\<close>)

text \<open>
  C1, as amended. The handlers store the three figures as they are given: a created product
  has the request's quantity and unit price and the request's reorder level, 10 when the
  request has none; an updated product has the patch's figure where the patch has one and
  the previous figure otherwise. So from a store whose products have non-negative quantity, unit price
  and reorder level, a creation or update whose own figures are non-negative gives a product
  and a store with non-negative figures, and every request with such a body leaves the store
  so.
\<close>

theorem nonneg_fields_preserved:
  assumes "nonneg_store d"
  shows
  "(nonneg_create req \<and> create_product d e req u = Inr (d', p) \<longrightarrow>
      nonneg_store d' \<and> 0 \<le> quantity p \<and> 0 \<le> unit_price p \<and> 0 \<le> reorder_level p) \<and>
   (create_product d e req u = Inr (d', p) \<longrightarrow>
      products d' = products d @ [p] \<and>
      quantity p = pc_quantity req \<and> unit_price p = pc_unit_price req \<and>
      reorder_level p = (case pc_reorder_level req of None \<Rightarrow> 10 | Some r \<Rightarrow> r)) \<and>
   (nonneg_update patch \<and> update_product d e pid patch u = Inr (d', p) \<longrightarrow>
      nonneg_store d' \<and> 0 \<le> quantity p \<and> 0 \<le> unit_price p \<and> 0 \<le> reorder_level p) \<and>
   (nonneg_request r \<longrightarrow> nonneg_store (fst (handle d e r))) \<and>
   (update_product d e pid patch u = Inr (d', p) \<longrightarrow>
      (\<exists>existing.
         find_one (\<lambda>x. product_id x = pid) (products d) = Some existing \<and>
         quantity p = (case pu_quantity patch of None \<Rightarrow> quantity existing | Some v \<Rightarrow> v) \<and>
         unit_price p =
           (case pu_unit_price patch of None \<Rightarrow> unit_price existing | Some v \<Rightarrow> v) \<and>
         reorder_level p =
           (case pu_reorder_level patch of None \<Rightarrow> reorder_level existing | Some v \<Rightarrow> v)))"
proof -
  have c1: "nonneg_create req \<and> create_product d e req u = Inr (d', p) \<longrightarrow>
      nonneg_store d' \<and> 0 \<le> quantity p \<and> 0 \<le> unit_price p \<and> 0 \<le> reorder_level p"
    using assms create_product_nonneg[of d req e u d' p] by (simp add: nonneg_product_def)
  have c2: "create_product d e req u = Inr (d', p) \<longrightarrow>
      products d' = products d @ [p] \<and>
      quantity p = pc_quantity req \<and> unit_price p = pc_unit_price req \<and>
      reorder_level p = (case pc_reorder_level req of None \<Rightarrow> 10 | Some r \<Rightarrow> r)"
    by (auto simp: create_product_def Product_of_create_def insert_one_def Let_def
        split: option.splits)
  have c3: "nonneg_update patch \<and> update_product d e pid patch u = Inr (d', p) \<longrightarrow>
      nonneg_store d' \<and> 0 \<le> quantity p \<and> 0 \<le> unit_price p \<and> 0 \<le> reorder_level p"
    using assms update_product_nonneg[of d patch e pid u d' p] by (simp add: nonneg_product_def)
  have c4: "nonneg_request r \<longrightarrow> nonneg_store (fst (handle d e r))"
    using assms handle_nonneg[of d r e] by simp
  have c5: "update_product d e pid patch u = Inr (d', p) \<longrightarrow>
      (\<exists>existing.
         find_one (\<lambda>x. product_id x = pid) (products d) = Some existing \<and>
         quantity p = (case pu_quantity patch of None \<Rightarrow> quantity existing | Some v \<Rightarrow> v) \<and>
         unit_price p =
           (case pu_unit_price patch of None \<Rightarrow> unit_price existing | Some v \<Rightarrow> v) \<and>
         reorder_level p =
           (case pu_reorder_level patch of None \<Rightarrow> reorder_level existing | Some v \<Rightarrow> v))"
  proof
    assume "update_product d e pid patch u = Inr (d', p)"
    from update_product_Inr[OF this] obtain existing where
      "find_one (\<lambda>x. product_id x = pid) (products d) = Some existing"
      "p = set_update_data patch (utcnow_iso e 0) existing"
      by blast
    then show "\<exists>existing.
         find_one (\<lambda>x. product_id x = pid) (products d) = Some existing \<and>
         quantity p = (case pu_quantity patch of None \<Rightarrow> quantity existing | Some v \<Rightarrow> v) \<and>
         unit_price p =
           (case pu_unit_price patch of None \<Rightarrow> unit_price existing | Some v \<Rightarrow> v) \<and>
         reorder_level p =
           (case pu_reorder_level patch of None \<Rightarrow> reorder_level existing | Some v \<Rightarrow> v)"
      by (auto simp: set_update_data_def)
  qed
  from c1 c2 c3 c4 c5 show ?thesis by (intro conjI)
qed

text \<open>
  A request the handler accepts as it is: the model class ProductCreate constrains the
  three figures to \<open>int\<close>, \<open>float\<close> and \<open>int\<close> and to nothing else. From a store with
  non-negative figures, creating a product with quantity -5, unit price -1 and reorder level
  -2 stores these values: non-negative figures are no invariant of the handlers alone.
\<close>

theorem nonneg_counterexample:
  "nonneg_store example_db \<and>
   create_product example_db example_env negative_create example_user =
     Inr (example_db\<lparr>products :=
            products example_db @ [Product_of_create example_env negative_create]\<rparr>,
          Product_of_create example_env negative_create) \<and>
   quantity (Product_of_create example_env negative_create) = - 5 \<and>
   unit_price (Product_of_create example_env negative_create) = - 1 \<and>
   reorder_level (Product_of_create example_env negative_create) = - 2 \<and>
   \<not> nonneg_store
       (example_db\<lparr>products :=
          products example_db @ [Product_of_create example_env negative_create]\<rparr>)"
  by (simp add: create_product_def find_one_def insert_one_def Product_of_create_def Let_def
      negative_create_def nonneg_store_def nonneg_product_def example_defs)

theorem nonneg_fields_preserved_witness:
  "nonneg_store example_db \<and> nonneg_create (example_create ''B-1'' 3) \<and>
   create_product example_db example_env (example_create ''B-1'' 3) example_user =
     Inr (example_db\<lparr>products :=
            products example_db @ [Product_of_create example_env (example_create ''B-1'' 3)]\<rparr>,
          Product_of_create example_env (example_create ''B-1'' 3)) \<and>
   nonneg_store
     (example_db\<lparr>products :=
        products example_db @ [Product_of_create example_env (example_create ''B-1'' 3)]\<rparr>) \<and>
   reorder_level (Product_of_create example_env (example_create ''B-1'' 3)) = 10 \<and>
   quantity (Product_of_create example_env (example_create ''B-1'' 3)) = 3 \<and>
   nonneg_update (example_patch None (Some 7)) \<and>
   (\<exists>d' p. update_product example_db example_env ''p2'' (example_patch None (Some 7))
       example_user = Inr (d', p) \<and> nonneg_store d' \<and> quantity p = 7) \<and>
   nonneg_store (fst (handle example_db example_env SeedData))"
proof -
  have s: "nonneg_store example_db"
    by (simp add: nonneg_store_def nonneg_product_def example_defs)
  have r: "nonneg_create (example_create ''B-1'' 3)"
    by (simp add: nonneg_create_def nonneg_opt_def example_defs)
  have h: "create_product example_db example_env (example_create ''B-1'' 3) example_user =
     Inr (example_db\<lparr>products :=
            products example_db @ [Product_of_create example_env (example_create ''B-1'' 3)]\<rparr>,
          Product_of_create example_env (example_create ''B-1'' 3))"
    by (simp add: create_product_def find_one_def insert_one_def Let_def example_defs)
  have n: "pc_reorder_level (example_create ''B-1'' 3) = None"
    "pc_quantity (example_create ''B-1'' 3) = 3"
    by (simp_all add: example_defs)
  from nonneg_fields_preserved[OF s, where req = "example_create ''B-1'' 3" and e = example_env
      and u = example_user and p = "Product_of_create example_env (example_create ''B-1'' 3)"
      and d' = "example_db\<lparr>products :=
            products example_db @ [Product_of_create example_env (example_create ''B-1'' 3)]\<rparr>"]
    r h n
  have c: "nonneg_store
     (example_db\<lparr>products :=
        products example_db @ [Product_of_create example_env (example_create ''B-1'' 3)]\<rparr>)"
    "reorder_level (Product_of_create example_env (example_create ''B-1'' 3)) = 10"
    "quantity (Product_of_create example_env (example_create ''B-1'' 3)) = 3"
    by simp_all
  have np: "nonneg_update (example_patch None (Some 7))"
    by (simp add: nonneg_update_def nonneg_opt_def example_defs)
  have hu: "update_product example_db example_env ''p2'' (example_patch None (Some 7))
      example_user =
     Inr (example_db\<lparr>products :=
            [example_product ''p1'' ''A-1'' 25 1299.99 10,
             (example_product ''p2'' ''A-2'' 7 24.99 20)
               \<lparr>updated_at := ''2026-01-01T00:00:00+00:00''\<rparr>]\<rparr>,
          (example_product ''p2'' ''A-2'' 7 24.99 20)
            \<lparr>updated_at := ''2026-01-01T00:00:00+00:00''\<rparr>)"
    by (simp add: update_product_def find_one_def set_update_data_def example_defs)
  have q: "quantity ((example_product ''p2'' ''A-2'' 7 24.99 20)
            \<lparr>updated_at := ''2026-01-01T00:00:00+00:00''\<rparr>) = 7"
    by (simp add: example_defs)
  from nonneg_fields_preserved[OF s, where patch = "example_patch None (Some 7)"
      and e = example_env and pid = "''p2''" and u = example_user
      and p = "(example_product ''p2'' ''A-2'' 7 24.99 20)
            \<lparr>updated_at := ''2026-01-01T00:00:00+00:00''\<rparr>"
      and d' = "example_db\<lparr>products :=
            [example_product ''p1'' ''A-1'' 25 1299.99 10,
             (example_product ''p2'' ''A-2'' 7 24.99 20)
               \<lparr>updated_at := ''2026-01-01T00:00:00+00:00''\<rparr>]\<rparr>"]
    np hu
  have "nonneg_store (example_db\<lparr>products :=
            [example_product ''p1'' ''A-1'' 25 1299.99 10,
             (example_product ''p2'' ''A-2'' 7 24.99 20)
               \<lparr>updated_at := ''2026-01-01T00:00:00+00:00''\<rparr>]\<rparr>)"
    by simp
  with hu q have cu: "\<exists>d' p. update_product example_db example_env ''p2''
       (example_patch None (Some 7)) example_user = Inr (d', p) \<and> nonneg_store d' \<and>
       quantity p = 7"
    by blast
  have "nonneg_request SeedData" by simp
  with nonneg_fields_preserved[OF s, where r = SeedData and e = example_env]
  have cs: "nonneg_store (fst (handle example_db example_env SeedData))" by blast
  from s r h c np cu cs show ?thesis by blast
qed

section \<open>Login and registration\<close>

text \<open>
  C4. \<open>login\<close> answers 401 "Invalid email or password" when no stored user has the
  email and when the password does not verify against the hash of the user found: the same
  response in both cases. When the user is found and the password verifies, it returns the
  token issued for the user's id, and the user.
\<close>

theorem login_invalid_credentials:
  "((\<forall>u\<in>set (users d). email u \<noteq> login_email c) \<longrightarrow>
      login d e c = Inl (HTTPException 401 ''Invalid email or password'') \<and>
      handle d e (Login c) =
        (d, ErrorResponse (HTTPException 401 ''Invalid email or password''))) \<and>
   (find_one (\<lambda>u. email u = login_email c) (users d) = Some user \<and>
    \<not> pwd_verify e (login_password c) (password_hash user) \<longrightarrow>
      login d e c = Inl (HTTPException 401 ''Invalid email or password'') \<and>
      handle d e (Login c) =
        (d, ErrorResponse (HTTPException 401 ''Invalid email or password''))) \<and>
   (find_one (\<lambda>u. email u = login_email c) (users d) = Some user \<and>
    pwd_verify e (login_password c) (password_hash user) \<longrightarrow>
      login d e c =
        Inr \<lparr>access_token = create_access_token e \<lparr>sub = Some (user_id user), exp = None\<rparr>,
             token_type = ''bearer'', token_user = User_of_doc user\<rparr>)"
proof -
  have c1: "(\<forall>u\<in>set (users d). email u \<noteq> login_email c) \<longrightarrow>
      login d e c = Inl (HTTPException 401 ''Invalid email or password'')"
  proof
    assume "\<forall>u\<in>set (users d). email u \<noteq> login_email c"
    then have "find_one (\<lambda>u. email u = login_email c) (users d) = None"
      by (simp add: find_one_None_iff)
    then show "login d e c = Inl (HTTPException 401 ''Invalid email or password'')"
      by (simp add: login_def)
  qed
  have c2: "find_one (\<lambda>u. email u = login_email c) (users d) = Some user \<and>
    \<not> pwd_verify e (login_password c) (password_hash user) \<longrightarrow>
      login d e c = Inl (HTTPException 401 ''Invalid email or password'')"
    by (simp add: login_def)
  have c3: "find_one (\<lambda>u. email u = login_email c) (users d) = Some user \<and>
    pwd_verify e (login_password c) (password_hash user) \<longrightarrow>
      login d e c =
        Inr \<lparr>access_token = create_access_token e \<lparr>sub = Some (user_id user), exp = None\<rparr>,
             token_type = ''bearer'', token_user = User_of_doc user\<rparr>"
    by (simp add: login_def Let_def User_of_doc_def)
  from c1 c2 c3 show ?thesis by simp
qed

theorem login_invalid_credentials_witness:
  "login example_db example_env \<lparr>login_email = ''bob@example.org'', login_password = ''pw''\<rparr> =
     Inl (HTTPException 401 ''Invalid email or password'') \<and>
   login example_db example_env \<lparr>login_email = ''ann@example.org'', login_password = ''no''\<rparr> =
     Inl (HTTPException 401 ''Invalid email or password'') \<and>
   login example_db example_env \<lparr>login_email = ''ann@example.org'', login_password = ''pw''\<rparr> =
     Inr \<lparr>access_token = Signed ''secret'' \<lparr>sub = Some ''u1'', exp = Some 87400\<rparr>,
          token_type = ''bearer'', token_user = example_user\<rparr>"
proof -
  have a: "\<forall>u\<in>set (users example_db).
      email u \<noteq> login_email \<lparr>login_email = ''bob@example.org'', login_password = ''pw''\<rparr>"
    by (simp add: example_defs)
  have f: "find_one (\<lambda>u. email u = ''ann@example.org'') (users example_db) = Some example_user_doc"
    by (simp add: find_one_def example_defs)
  have b: "\<not> pwd_verify example_env ''no'' (password_hash example_user_doc)"
    by (simp add: example_defs)
  have c: "pwd_verify example_env ''pw'' (password_hash example_user_doc)"
    by (simp add: example_defs)
  from a login_invalid_credentials[where d = example_db and e = example_env
      and c = "\<lparr>login_email = ''bob@example.org'', login_password = ''pw''\<rparr>"]
  have r1: "login example_db example_env
      \<lparr>login_email = ''bob@example.org'', login_password = ''pw''\<rparr> =
     Inl (HTTPException 401 ''Invalid email or password'')" by blast
  from f b login_invalid_credentials[where d = example_db and e = example_env
      and c = "\<lparr>login_email = ''ann@example.org'', login_password = ''no''\<rparr>"
      and user = example_user_doc]
  have r2: "login example_db example_env
      \<lparr>login_email = ''ann@example.org'', login_password = ''no''\<rparr> =
     Inl (HTTPException 401 ''Invalid email or password'')" by simp
  from f c login_invalid_credentials[where d = example_db and e = example_env
      and c = "\<lparr>login_email = ''ann@example.org'', login_password = ''pw''\<rparr>"
      and user = example_user_doc]
  have r3: "login example_db example_env
      \<lparr>login_email = ''ann@example.org'', login_password = ''pw''\<rparr> =
     Inr \<lparr>access_token =
            create_access_token example_env \<lparr>sub = Some (user_id example_user_doc), exp = None\<rparr>,
          token_type = ''bearer'', token_user = User_of_doc example_user_doc\<rparr>" by simp
  have t: "create_access_token example_env \<lparr>sub = Some (user_id example_user_doc), exp = None\<rparr> =
      Signed ''secret'' \<lparr>sub = Some ''u1'', exp = Some 87400\<rparr>"
    by (simp add: create_access_token_def jwt_encode_def JWT_EXPIRATION_HOURS_def example_defs)
  have u: "User_of_doc example_user_doc = example_user"
    by (simp add: User_of_doc_def example_defs)
  from r1 r2 r3 t u show ?thesis by simp
qed

lemma json_keys_opt_str [simp]: "json_keys (json_opt_str v) = []"
  by (simp add: json_opt_str_def split: option.splits)

lemma response_keys_no_password_hash:
  "''password_hash'' \<notin> set (json_keys (response_json r))"
  by (cases r)
    (auto simp: Token_json_def User_json_def Category_json_def Product_json_def
      DashboardStats_json_def StockDistribution_json_def)

lemma find_one_list_all2:
  assumes "list_all2 R xs ys" and "\<And>x y. R x y \<Longrightarrow> q x = q' y"
  shows "rel_option R (find_one q xs) (find_one q' ys)"
  using assms(1)
proof (induction rule: list_all2_induct)
  case Nil
  then show ?case by (simp add: find_one_def)
next
  case (Cons x xs y ys)
  from assms(2)[OF Cons.hyps(1)] Cons show ?case by (simp add: find_one_def)
qed

lemma same_user_fields:
  "same_user_apart_from_hash e e' x y \<Longrightarrow>
     user_id x = user_id y \<and> email x = email y \<and> User_of_doc x = User_of_doc y"
  by (auto simp: same_user_apart_from_hash_def User_of_doc_def)

lemma verify_token_blind:
  "same_apart_from_hashes e e' d d' \<Longrightarrow> verify_token e' c = verify_token e c"
  by (simp add: same_apart_from_hashes_def verify_token_def)

lemma create_access_token_blind:
  "same_apart_from_hashes e e' d d' \<Longrightarrow> create_access_token e' x = create_access_token e x"
  by (simp add: same_apart_from_hashes_def create_access_token_def)

lemma get_current_user_blind:
  assumes "same_apart_from_hashes e e' d d'"
  shows "get_current_user d' e' c = get_current_user d e c"
proof (cases "verify_token e c")
  case (Inl err)
  with verify_token_blind[OF assms, of c] show ?thesis by (simp add: get_current_user_def)
next
  case (Inr uid)
  from assms have "list_all2 (same_user_apart_from_hash e e') (users d) (users d')"
    by (simp add: same_apart_from_hashes_def)
  then have "rel_option (same_user_apart_from_hash e e')
      (find_one (\<lambda>x. user_id x = uid) (users d)) (find_one (\<lambda>x. user_id x = uid) (users d'))"
    by (rule find_one_list_all2) (simp add: same_user_fields)
  then show ?thesis
    using Inr verify_token_blind[OF assms, of c]
    by (cases "find_one (\<lambda>x. user_id x = uid) (users d)";
        cases "find_one (\<lambda>x. user_id x = uid) (users d')")
       (auto simp: get_current_user_def dest: same_user_fields)
qed

lemma login_blind:
  assumes "same_apart_from_hashes e e' d d'"
  shows "login d' e' c = login d e c"
proof -
  from assms have "list_all2 (same_user_apart_from_hash e e') (users d) (users d')"
    by (simp add: same_apart_from_hashes_def)
  then have "rel_option (same_user_apart_from_hash e e')
      (find_one (\<lambda>x. email x = login_email c) (users d))
      (find_one (\<lambda>x. email x = login_email c) (users d'))"
    by (rule find_one_list_all2) (simp add: same_user_fields)
  then show ?thesis
    using create_access_token_blind[OF assms]
    by (cases "find_one (\<lambda>x. email x = login_email c) (users d)";
        cases "find_one (\<lambda>x. email x = login_email c) (users d')")
       (auto simp: login_def Let_def same_user_apart_from_hash_def User_of_doc_def)
qed

lemma register_blind:
  assumes "same_apart_from_hashes e e' d d'"
  shows "snd (finish d' TokenResponse (register d' e' r)) =
         snd (finish d TokenResponse (register d e r))"
proof -
  from assms have "list_all2 (same_user_apart_from_hash e e') (users d) (users d')"
    by (simp add: same_apart_from_hashes_def)
  then have "rel_option (same_user_apart_from_hash e e')
      (find_one (\<lambda>x. email x = reg_email r) (users d))
      (find_one (\<lambda>x. email x = reg_email r) (users d'))"
    by (rule find_one_list_all2) (simp add: same_user_fields)
  moreover from assms have "uuid4 e' = uuid4 e" "utcnow_iso e' = utcnow_iso e"
    by (simp_all add: same_apart_from_hashes_def)
  ultimately show ?thesis
    using create_access_token_blind[OF assms]
    by (cases "find_one (\<lambda>x. email x = reg_email r) (users d)";
        cases "find_one (\<lambda>x. email x = reg_email r) (users d')")
       (auto simp: register_def finish_def Let_def)
qed

lemma with_current_user_blind:
  assumes "same_apart_from_hashes e e' d d'"
    and "\<And>u. snd (h' u) = snd (h u)"
  shows "snd (with_current_user d' e' c h') = snd (with_current_user d e c h)"
  using get_current_user_blind[OF assms(1), of c] assms(2)
  by (simp add: with_current_user_def split: sum.splits)

lemma handle_blind:
  assumes "same_apart_from_hashes e e' d d'"
  shows "snd (handle d' e' req) = snd (handle d e req)"
proof -
  from assms have eq: "categories d' = categories d" "products d' = products d"
    "uuid4 e' = uuid4 e" "utcnow_iso e' = utcnow_iso e" "fl_round e' = fl_round e"
    by (simp_all add: same_apart_from_hashes_def)
  have sv: "stock_value e' = stock_value e"
    by (intro ext) (simp add: stock_value_def fl_mul_def float_of_int_def eq)
  show ?thesis
  proof (cases req)
    case (Register x)
    with register_blind[OF assms] show ?thesis by simp
  next
    case (Login x)
    with login_blind[OF assms, of x] show ?thesis by (simp split: sum.splits)
  next
    case (GetMe c)
    then show ?thesis by (simp add: with_current_user_blind[OF assms])
  next
    case (GetCategories c)
    then show ?thesis
      by (simp add: with_current_user_blind[OF assms] get_categories_def eq)
  next
    case (CreateCategory c x)
    then show ?thesis
      by (auto intro!: with_current_user_blind[OF assms]
          simp: create_category_def finish_def Let_def eq split: option.splits)
  next
    case (GetProducts c cat low)
    then show ?thesis
      by (simp add: with_current_user_blind[OF assms] get_products_def eq)
  next
    case (CreateProduct c x)
    then show ?thesis
      by (auto intro!: with_current_user_blind[OF assms]
          simp: create_product_def Product_of_create_def finish_def Let_def eq
          split: option.splits)
  next
    case (UpdateProduct c pid x)
    then show ?thesis
      by (auto intro!: with_current_user_blind[OF assms]
          simp: update_product_def finish_def Let_def eq split: option.splits)
  next
    case (DeleteProduct c pid)
    then show ?thesis
      by (auto intro!: with_current_user_blind[OF assms]
          simp: delete_product_def finish_def eq split: prod.splits)
  next
    case (GetDashboardStats c)
    then show ?thesis
      by (auto intro!: with_current_user_blind[OF assms]
          simp: get_dashboard_stats_def py_sum_float_def fl_add_def float_of_int_def eq sv)
  next
    case (GetStockDistribution c)
    have "distribution_add e' = distribution_add e"
    proof (intro ext)
      fix k v xs
      show "distribution_add e' k v xs = distribution_add e k v xs"
        by (induction xs) (auto simp: fl_add_def float_of_int_def eq)
    qed
    with GetStockDistribution show ?thesis
      by (auto intro!: with_current_user_blind[OF assms]
          simp: get_stock_distribution_def eq sv)
  next
    case SeedData
    then show ?thesis
      by (simp add: seed_data_def count_documents_def eq Let_def)
  qed
qed

text \<open>
  C5. \<open>register\<close> answers 400 "Email already registered" when a stored user has the
  email, and the store stays as it was; otherwise it appends the new user with the hash of
  the password and returns the token issued for the new id, and the user, after which a
  registration with the same email is refused. No response carries a password hash: two
  stores that differ only in the stored hashes (with the same passwords accepted) and in
  the function that makes new hashes get the same response to every request, and the key
  \<open>password_hash\<close> occurs in no response.
\<close>

theorem register_duplicate_email:
  "((\<exists>x\<in>set (users d). email x = reg_email r) \<longrightarrow>
      register d e r = Inl (HTTPException 400 ''Email already registered'') \<and>
      handle d e (Register r) =
        (d, ErrorResponse (HTTPException 400 ''Email already registered''))) \<and>
   ((\<forall>x\<in>set (users d). email x \<noteq> reg_email r) \<longrightarrow>
      (\<exists>d' t doc.
         register d e r = Inr (d', t) \<and>
         users d' = users d @ [doc] \<and> categories d' = categories d \<and>
         products d' = products d \<and>
         User_of_doc doc = token_user t \<and> email doc = reg_email r \<and>
         user_name doc = reg_name r \<and>
         password_hash doc = pwd_hash e (reg_password r) \<and>
         token_type t = ''bearer'' \<and>
         access_token t = create_access_token e \<lparr>sub = Some (user_id doc), exp = None\<rparr> \<and>
         (\<forall>e2 r2. reg_email r2 = reg_email r \<longrightarrow>
            register d' e2 r2 = Inl (HTTPException 400 ''Email already registered'')))) \<and>
   (same_apart_from_hashes e e' d d' \<longrightarrow> snd (handle d' e' req) = snd (handle d e req)) \<and>
   ''password_hash'' \<notin> set (json_keys (response_json (snd (handle d e req))))"
proof -
  have dup: "register d0 e0 r0 = Inl (HTTPException 400 ''Email already registered'')"
    if "\<exists>x\<in>set (users d0). email x = reg_email r0" for d0 e0 r0
  proof -
    from that have "find_one (\<lambda>u. email u = reg_email r0) (users d0) \<noteq> None"
      by (simp add: find_one_None_iff)
    then show ?thesis by (auto simp: register_def)
  qed
  have c1: "(\<exists>x\<in>set (users d). email x = reg_email r) \<longrightarrow>
      register d e r = Inl (HTTPException 400 ''Email already registered'') \<and>
      handle d e (Register r) =
        (d, ErrorResponse (HTTPException 400 ''Email already registered''))"
    using dup[of d r e] by (simp add: finish_def)
  have c2: "(\<forall>x\<in>set (users d). email x \<noteq> reg_email r) \<longrightarrow>
      (\<exists>d' t doc.
         register d e r = Inr (d', t) \<and>
         users d' = users d @ [doc] \<and> categories d' = categories d \<and>
         products d' = products d \<and>
         User_of_doc doc = token_user t \<and> email doc = reg_email r \<and>
         user_name doc = reg_name r \<and>
         password_hash doc = pwd_hash e (reg_password r) \<and>
         token_type t = ''bearer'' \<and>
         access_token t = create_access_token e \<lparr>sub = Some (user_id doc), exp = None\<rparr> \<and>
         (\<forall>e2 r2. reg_email r2 = reg_email r \<longrightarrow>
            register d' e2 r2 = Inl (HTTPException 400 ''Email already registered'')))"
  proof
    assume "\<forall>x\<in>set (users d). email x \<noteq> reg_email r"
    then have n: "find_one (\<lambda>u. email u = reg_email r) (users d) = None"
      by (simp add: find_one_None_iff)
    define doc where "doc = \<lparr>user_id = uuid4 e 0, email = reg_email r, user_name = reg_name r,
        user_created_at = utcnow_iso e 0, password_hash = pwd_hash e (reg_password r)\<rparr>"
    define d' where "d' = d\<lparr>users := users d @ [doc]\<rparr>"
    define t where "t = \<lparr>access_token = create_access_token e \<lparr>sub = Some (uuid4 e 0), exp = None\<rparr>,
        token_type = ''bearer'', token_user = User_of_doc doc\<rparr>"
    have reg: "register d e r = Inr (d', t)"
      using n by (simp add: register_def Let_def insert_one_def doc_def d'_def t_def User_of_doc_def)
    have again: "\<forall>e2 r2. reg_email r2 = reg_email r \<longrightarrow>
            register d' e2 r2 = Inl (HTTPException 400 ''Email already registered'')"
    proof (intro allI impI)
      fix e2 :: env and r2 :: UserCreate
      assume "reg_email r2 = reg_email r"
      then have "\<exists>x\<in>set (users d'). email x = reg_email r2"
        by (simp add: d'_def doc_def)
      then show "register d' e2 r2 = Inl (HTTPException 400 ''Email already registered'')"
        by (rule dup)
    qed
    have props: "users d' = users d @ [doc]" "categories d' = categories d"
      "products d' = products d" "User_of_doc doc = token_user t" "email doc = reg_email r"
      "user_name doc = reg_name r" "password_hash doc = pwd_hash e (reg_password r)"
      "token_type t = ''bearer''"
      "access_token t = create_access_token e \<lparr>sub = Some (user_id doc), exp = None\<rparr>"
      by (simp_all add: d'_def doc_def t_def)
    from reg props again show "\<exists>d' t doc.
         register d e r = Inr (d', t) \<and>
         users d' = users d @ [doc] \<and> categories d' = categories d \<and>
         products d' = products d \<and>
         User_of_doc doc = token_user t \<and> email doc = reg_email r \<and>
         user_name doc = reg_name r \<and>
         password_hash doc = pwd_hash e (reg_password r) \<and>
         token_type t = ''bearer'' \<and>
         access_token t = create_access_token e \<lparr>sub = Some (user_id doc), exp = None\<rparr> \<and>
         (\<forall>e2 r2. reg_email r2 = reg_email r \<longrightarrow>
            register d' e2 r2 = Inl (HTTPException 400 ''Email already registered''))"
      by blast
  qed
  have c3: "same_apart_from_hashes e e' d d' \<longrightarrow> snd (handle d' e' req) = snd (handle d e req)"
    using handle_blind[of e e' d d' req] by simp
  from c1 c2 c3 response_keys_no_password_hash show ?thesis by (intro conjI)
qed

theorem register_duplicate_email_witness:
  "register example_db example_env
     \<lparr>reg_email = ''ann@example.org'', reg_password = ''x'', reg_name = ''Ann 2''\<rparr> =
     Inl (HTTPException 400 ''Email already registered'') \<and>
   (\<exists>d' t. register example_db example_env
       \<lparr>reg_email = ''bob@example.org'', reg_password = ''x'', reg_name = ''Bob''\<rparr> = Inr (d', t) \<and>
      length (users d') = 2 \<and> password_hash (last (users d')) = ''#x'' \<and>
      register d' example_env
        \<lparr>reg_email = ''bob@example.org'', reg_password = ''y'', reg_name = ''Bob 2''\<rparr> =
        Inl (HTTPException 400 ''Email already registered'')) \<and>
   same_apart_from_hashes example_env example_env_rehashed example_db example_db_rehashed \<and>
   map password_hash (users example_db) = [''#pw''] \<and>
   map password_hash (users example_db_rehashed) = [''%pw%''] \<and>
   snd (handle example_db_rehashed example_env_rehashed
          (Login \<lparr>login_email = ''ann@example.org'', login_password = ''pw''\<rparr>)) =
     snd (handle example_db example_env
          (Login \<lparr>login_email = ''ann@example.org'', login_password = ''pw''\<rparr>)) \<and>
   snd (handle example_db example_env
          (Login \<lparr>login_email = ''ann@example.org'', login_password = ''pw''\<rparr>)) =
     TokenResponse
       \<lparr>access_token = Signed ''secret'' \<lparr>sub = Some ''u1'', exp = Some 87400\<rparr>,
        token_type = ''bearer'', token_user = example_user\<rparr> \<and>
   pwd_hash example_env_rehashed ''x'' \<noteq> pwd_hash example_env ''x'' \<and>
   snd (handle example_db_rehashed example_env_rehashed
          (Register \<lparr>reg_email = ''bob@example.org'', reg_password = ''x'', reg_name = ''Bob''\<rparr>)) =
     snd (handle example_db example_env
          (Register \<lparr>reg_email = ''bob@example.org'', reg_password = ''x'', reg_name = ''Bob''\<rparr>)) \<and>
   ''password_hash'' \<notin> set (json_keys (response_json (snd (handle example_db example_env
       (Login \<lparr>login_email = ''ann@example.org'', login_password = ''pw''\<rparr>)))))"
proof -
  have a: "\<exists>x\<in>set (users example_db). email x =
      reg_email \<lparr>reg_email = ''ann@example.org'', reg_password = ''x'', reg_name = ''Ann 2''\<rparr>"
    by (simp add: example_defs)
  have b: "\<forall>x\<in>set (users example_db). email x \<noteq>
      reg_email \<lparr>reg_email = ''bob@example.org'', reg_password = ''x'', reg_name = ''Bob''\<rparr>"
    by (simp add: example_defs)
  have n: "length (users example_db) = 1" by (simp add: example_defs)
  have h: "pwd_hash example_env ''x'' = ''#x''" by (simp add: example_defs)
  from a register_duplicate_email[where d = example_db and e = example_env
      and r = "\<lparr>reg_email = ''ann@example.org'', reg_password = ''x'', reg_name = ''Ann 2''\<rparr>"]
  have r1: "register example_db example_env
     \<lparr>reg_email = ''ann@example.org'', reg_password = ''x'', reg_name = ''Ann 2''\<rparr> =
     Inl (HTTPException 400 ''Email already registered'')" by blast
  from b register_duplicate_email[where d = example_db and e = example_env
      and r = "\<lparr>reg_email = ''bob@example.org'', reg_password = ''x'', reg_name = ''Bob''\<rparr>"]
  obtain d' t doc where
    reg: "register example_db example_env
       \<lparr>reg_email = ''bob@example.org'', reg_password = ''x'', reg_name = ''Bob''\<rparr> = Inr (d', t)"
    and us: "users d' = users example_db @ [doc]"
    and ph: "password_hash doc = pwd_hash example_env
       (reg_password \<lparr>reg_email = ''bob@example.org'', reg_password = ''x'', reg_name = ''Bob''\<rparr>)"
    and again: "\<forall>e2 r2. reg_email r2 =
        reg_email \<lparr>reg_email = ''bob@example.org'', reg_password = ''x'', reg_name = ''Bob''\<rparr> \<longrightarrow>
        register d' e2 r2 = Inl (HTTPException 400 ''Email already registered'')"
    by blast
  from again have r3: "register d' example_env
        \<lparr>reg_email = ''bob@example.org'', reg_password = ''y'', reg_name = ''Bob 2''\<rparr> =
        Inl (HTTPException 400 ''Email already registered'')" by simp
  from us n ph h have r2: "length (users d') = 2" "password_hash (last (users d')) = ''#x''"
    by simp_all
  from register_duplicate_email[where d = example_db and e = example_env
      and req = "Login \<lparr>login_email = ''ann@example.org'', login_password = ''pw''\<rparr>"]
  have r4: "''password_hash'' \<notin> set (json_keys (response_json (snd (handle example_db example_env
       (Login \<lparr>login_email = ''ann@example.org'', login_password = ''pw''\<rparr>)))))" by blast
  have sa: "same_apart_from_hashes example_env example_env_rehashed example_db example_db_rehashed"
    by (simp add: same_apart_from_hashes_def same_user_apart_from_hash_def User_of_doc_def
        example_db_rehashed_def example_env_rehashed_def example_defs)
  have hs: "map password_hash (users example_db) = [''#pw'']"
    "map password_hash (users example_db_rehashed) = [''%pw%'']"
    by (simp_all add: example_db_rehashed_def example_defs)
  from sa register_duplicate_email[where d = example_db and e = example_env
      and d' = example_db_rehashed and e' = example_env_rehashed
      and req = "Login \<lparr>login_email = ''ann@example.org'', login_password = ''pw''\<rparr>"]
  have r5: "snd (handle example_db_rehashed example_env_rehashed
          (Login \<lparr>login_email = ''ann@example.org'', login_password = ''pw''\<rparr>)) =
     snd (handle example_db example_env
          (Login \<lparr>login_email = ''ann@example.org'', login_password = ''pw''\<rparr>))" by blast
  have r6: "snd (handle example_db example_env
          (Login \<lparr>login_email = ''ann@example.org'', login_password = ''pw''\<rparr>)) =
     TokenResponse
       \<lparr>access_token = Signed ''secret'' \<lparr>sub = Some ''u1'', exp = Some 87400\<rparr>,
        token_type = ''bearer'', token_user = example_user\<rparr>"
    by (simp add: login_def find_one_def User_of_doc_def create_access_token_def jwt_encode_def
        JWT_EXPIRATION_HOURS_def Let_def example_defs)
  from sa register_duplicate_email[where d = example_db and e = example_env
      and d' = example_db_rehashed and e' = example_env_rehashed
      and req = "Register \<lparr>reg_email = ''bob@example.org'', reg_password = ''x'',
        reg_name = ''Bob''\<rparr>"]
  have r7: "snd (handle example_db_rehashed example_env_rehashed
          (Register \<lparr>reg_email = ''bob@example.org'', reg_password = ''x'', reg_name = ''Bob''\<rparr>)) =
     snd (handle example_db example_env
          (Register \<lparr>reg_email = ''bob@example.org'', reg_password = ''x'', reg_name = ''Bob''\<rparr>))"
    by blast
  have r8: "pwd_hash example_env_rehashed ''x'' \<noteq> pwd_hash example_env ''x''"
    by (simp add: example_env_rehashed_def example_defs)
  from r1 reg r2 r3 r4 sa hs r5 r6 r7 r8 show ?thesis by blast
qed

section \<open>Token verification\<close>

text \<open>
  A token signed with the server's key that has no subject and has expired: the decoder
  raises for the expiry before line 125 reads the subject, so the answer is "Token has
  expired" and neither of the two responses for an invalid token.
\<close>

theorem token_missing_subject_expired_counterexample:
  "sub \<lparr>sub = None, exp = Some 0\<rparr> = None \<and>
   verify_token example_env (Signed (JWT_SECRET example_env) \<lparr>sub = None, exp = Some 0\<rparr>) =
     Inl (HTTPException 401 ''Token has expired'') \<and>
   verify_token example_env (Signed (JWT_SECRET example_env) \<lparr>sub = None, exp = Some 0\<rparr>) \<noteq>
     Inl (HTTPException 401 ''Invalid authentication credentials'') \<and>
   verify_token example_env (Signed (JWT_SECRET example_env) \<lparr>sub = None, exp = Some 0\<rparr>) \<noteq>
     Inl (HTTPException 401 ''Could not validate credentials'')"
  by (simp add: verify_token_def jwt_decode_def example_env_def)

text \<open>
  C6, as amended. A token issued for a user id verifies to that id, and \<open>get_current_user\<close>
  resolves it to the stored user with that id, while less than 24 hours have passed since
  it was issued; from 24 hours on it is refused with 401 "Token has expired". A malformed
  token and a token signed with another key are refused with 401 "Could not validate
  credentials". A token signed with the server's key is refused with "Token has expired"
  once its expiration has come, whatever its subject; a token without subject that has not
  expired is refused with 401 "Invalid authentication credentials". The last two responses
  are the specification's TokenInvalid.
\<close>

theorem token_verification:
  "(JWT_SECRET e' = JWT_SECRET e \<and> utcnow e' < utcnow e + 24 * 3600 \<longrightarrow>
      verify_token e' (create_access_token e \<lparr>sub = Some uid, exp = None\<rparr>) = Inr uid) \<and>
   (JWT_SECRET e' = JWT_SECRET e \<and> utcnow e + 24 * 3600 \<le> utcnow e' \<longrightarrow>
      verify_token e' (create_access_token e \<lparr>sub = Some uid, exp = None\<rparr>) =
        Inl (HTTPException 401 ''Token has expired'')) \<and>
   verify_token e (Malformed s) = Inl (HTTPException 401 ''Could not validate credentials'') \<and>
   (k \<noteq> JWT_SECRET e \<longrightarrow>
      verify_token e (Signed k c) = Inl (HTTPException 401 ''Could not validate credentials'')) \<and>
   (exp c = Some t \<and> t \<le> utcnow e \<longrightarrow>
      verify_token e (Signed (JWT_SECRET e) c) = Inl (HTTPException 401 ''Token has expired'')) \<and>
   (sub c = None \<and> (case exp c of None \<Rightarrow> True | Some t \<Rightarrow> utcnow e < t) \<longrightarrow>
      verify_token e (Signed (JWT_SECRET e) c) =
        Inl (HTTPException 401 ''Invalid authentication credentials'')) \<and>
   (JWT_SECRET e' = JWT_SECRET e \<and> utcnow e' < utcnow e + 24 * 3600 \<and>
    find_one (\<lambda>x. user_id x = uid) (users d) = Some user \<longrightarrow>
      get_current_user d e' (create_access_token e \<lparr>sub = Some uid, exp = None\<rparr>) =
        Inr (User_of_doc user) \<and>
      user_id (User_of_doc user) = uid)"
proof -
  have tok: "create_access_token e \<lparr>sub = Some uid, exp = None\<rparr> =
      Signed (JWT_SECRET e) \<lparr>sub = Some uid, exp = Some (utcnow e + 24 * 3600)\<rparr>"
    by (simp add: create_access_token_def jwt_encode_def JWT_EXPIRATION_HOURS_def)
  have c1: "JWT_SECRET e' = JWT_SECRET e \<and> utcnow e' < utcnow e + 24 * 3600 \<longrightarrow>
      verify_token e' (create_access_token e \<lparr>sub = Some uid, exp = None\<rparr>) = Inr uid"
    by (simp add: tok verify_token_def jwt_decode_def)
  have c2: "JWT_SECRET e' = JWT_SECRET e \<and> utcnow e + 24 * 3600 \<le> utcnow e' \<longrightarrow>
      verify_token e' (create_access_token e \<lparr>sub = Some uid, exp = None\<rparr>) =
        Inl (HTTPException 401 ''Token has expired'')"
    by (simp add: tok verify_token_def jwt_decode_def)
  have c3: "verify_token e (Malformed s) =
      Inl (HTTPException 401 ''Could not validate credentials'')"
    by (simp add: verify_token_def jwt_decode_def)
  have c4: "k \<noteq> JWT_SECRET e \<longrightarrow>
      verify_token e (Signed k c) = Inl (HTTPException 401 ''Could not validate credentials'')"
    by (simp add: verify_token_def jwt_decode_def)
  have c5: "exp c = Some t \<and> t \<le> utcnow e \<longrightarrow>
      verify_token e (Signed (JWT_SECRET e) c) = Inl (HTTPException 401 ''Token has expired'')"
    by (simp add: verify_token_def jwt_decode_def)
  have c6: "sub c = None \<and> (case exp c of None \<Rightarrow> True | Some t \<Rightarrow> utcnow e < t) \<longrightarrow>
      verify_token e (Signed (JWT_SECRET e) c) =
        Inl (HTTPException 401 ''Invalid authentication credentials'')"
    by (simp add: verify_token_def jwt_decode_def split: option.splits)
  have c7: "JWT_SECRET e' = JWT_SECRET e \<and> utcnow e' < utcnow e + 24 * 3600 \<and>
    find_one (\<lambda>x. user_id x = uid) (users d) = Some user \<longrightarrow>
      get_current_user d e' (create_access_token e \<lparr>sub = Some uid, exp = None\<rparr>) =
        Inr (User_of_doc user) \<and>
      user_id (User_of_doc user) = uid"
  proof
    assume a: "JWT_SECRET e' = JWT_SECRET e \<and> utcnow e' < utcnow e + 24 * 3600 \<and>
      find_one (\<lambda>x. user_id x = uid) (users d) = Some user"
    with c1 have v: "verify_token e' (create_access_token e \<lparr>sub = Some uid, exp = None\<rparr>) = Inr uid"
      by simp
    from a have "user_id user = uid" by (auto dest: find_one_Some_mem)
    with a v show "get_current_user d e' (create_access_token e \<lparr>sub = Some uid, exp = None\<rparr>) =
        Inr (User_of_doc user) \<and> user_id (User_of_doc user) = uid"
      by (simp add: get_current_user_def User_of_doc_def)
  qed
  from c1 c2 c3 c4 c5 c6 c7 show ?thesis by (intro conjI)
qed

theorem token_verification_witness:
  "verify_token (example_env\<lparr>utcnow := 87399\<rparr>)
     (create_access_token example_env \<lparr>sub = Some ''u1'', exp = None\<rparr>) = Inr ''u1'' \<and>
   verify_token (example_env\<lparr>utcnow := 87400\<rparr>)
     (create_access_token example_env \<lparr>sub = Some ''u1'', exp = None\<rparr>) =
     Inl (HTTPException 401 ''Token has expired'') \<and>
   verify_token example_env (Signed ''other'' \<lparr>sub = Some ''u1'', exp = None\<rparr>) =
     Inl (HTTPException 401 ''Could not validate credentials'') \<and>
   verify_token example_env (Signed ''secret'' \<lparr>sub = None, exp = None\<rparr>) =
     Inl (HTTPException 401 ''Invalid authentication credentials'') \<and>
   verify_token example_env (Signed ''secret'' \<lparr>sub = None, exp = Some 1000\<rparr>) =
     Inl (HTTPException 401 ''Token has expired'') \<and>
   get_current_user example_db (example_env\<lparr>utcnow := 87399\<rparr>)
     (create_access_token example_env \<lparr>sub = Some ''u1'', exp = None\<rparr>) = Inr example_user"
proof -
  have s: "JWT_SECRET (example_env\<lparr>utcnow := 87399\<rparr>) = JWT_SECRET example_env"
    "JWT_SECRET (example_env\<lparr>utcnow := 87400\<rparr>) = JWT_SECRET example_env"
    "JWT_SECRET example_env = ''secret''"
    by simp_all (simp add: example_defs)
  have t: "utcnow (example_env\<lparr>utcnow := 87399\<rparr>) < utcnow example_env + 24 * 3600"
    "utcnow example_env + 24 * 3600 \<le> utcnow (example_env\<lparr>utcnow := 87400\<rparr>)"
    by (simp_all add: example_defs)
  have k: "''other'' \<noteq> JWT_SECRET example_env" by (simp add: example_defs)
  have n: "sub \<lparr>sub = None, exp = None\<rparr> = None \<and>
      (case exp \<lparr>sub = None, exp = None :: int option\<rparr> of None \<Rightarrow> True
       | Some t \<Rightarrow> utcnow example_env < t)" by simp
  have f: "find_one (\<lambda>x. user_id x = ''u1'') (users example_db) = Some example_user_doc"
    by (simp add: find_one_def example_defs)
  have u: "User_of_doc example_user_doc = example_user"
    by (simp add: User_of_doc_def example_defs)
  from s t f token_verification[where e = example_env and e' = "example_env\<lparr>utcnow := 87399\<rparr>"
      and uid = "''u1''" and d = example_db and user = example_user_doc]
  have r1: "verify_token (example_env\<lparr>utcnow := 87399\<rparr>)
     (create_access_token example_env \<lparr>sub = Some ''u1'', exp = None\<rparr>) = Inr ''u1''"
    "get_current_user example_db (example_env\<lparr>utcnow := 87399\<rparr>)
     (create_access_token example_env \<lparr>sub = Some ''u1'', exp = None\<rparr>) =
       Inr (User_of_doc example_user_doc)"
    by blast+
  from s t token_verification[where e = example_env and e' = "example_env\<lparr>utcnow := 87400\<rparr>"
      and uid = "''u1''"]
  have r2: "verify_token (example_env\<lparr>utcnow := 87400\<rparr>)
     (create_access_token example_env \<lparr>sub = Some ''u1'', exp = None\<rparr>) =
     Inl (HTTPException 401 ''Token has expired'')"
    by blast
  from k token_verification[where e = example_env and k = "''other''"
      and c = "\<lparr>sub = Some ''u1'', exp = None\<rparr>"]
  have r3: "verify_token example_env (Signed ''other'' \<lparr>sub = Some ''u1'', exp = None\<rparr>) =
     Inl (HTTPException 401 ''Could not validate credentials'')"
    by blast
  from n token_verification[where e = example_env and c = "\<lparr>sub = None, exp = None\<rparr>"]
  have r4: "verify_token example_env (Signed (JWT_SECRET example_env) \<lparr>sub = None, exp = None\<rparr>) =
     Inl (HTTPException 401 ''Invalid authentication credentials'')"
    by blast
  have x: "exp \<lparr>sub = None, exp = Some 1000\<rparr> = Some 1000 \<and> (1000::int) \<le> utcnow example_env"
    by (simp add: example_defs)
  from x token_verification[where e = example_env and c = "\<lparr>sub = None, exp = Some 1000\<rparr>"
      and t = 1000]
  have r5: "verify_token example_env
      (Signed (JWT_SECRET example_env) \<lparr>sub = None, exp = Some 1000\<rparr>) =
     Inl (HTTPException 401 ''Token has expired'')"
    by blast
  from r1 r2 r3 r4 r5 u s(3) show ?thesis by simp
qed

end
